theory Spec2Isabelle
  imports Complex_Main "HOL-Library.Sublist"
begin

chapter \<open>The SDK as functions\<close>

section \<open>JavaScript values used by the SDK\<close>

text \<open>
  Strings are character lists. An optional property (\<^verbatim>\<open>field?: string\<close>) is an
  \<open>option\<close>: \<open>None\<close> is \<^verbatim>\<open>undefined\<close>. JavaScript's truthiness test on such a value
  (\<^verbatim>\<open>if (x)\<close>, \<^verbatim>\<open>x || d\<close>, \<^verbatim>\<open>!x\<close>) is false for \<^verbatim>\<open>undefined\<close> and for the empty string.
\<close>

fun truthy :: "string option \<Rightarrow> bool" where
  "truthy None = False"
| "truthy (Some s) = (s \<noteq> [])"

text \<open>\<^verbatim>\<open>a || d\<close> on an optional string with a string default.\<close>

fun or_default :: "string option \<Rightarrow> string \<Rightarrow> string" where
  "or_default None d = d"
| "or_default (Some s) d = (if s = [] then d else s)"

text \<open>\<^verbatim>\<open>a || b\<close> on two optional strings.\<close>

definition or_else :: "string option \<Rightarrow> string option \<Rightarrow> string option" where
  "or_else a b = (if truthy a then a else b)"

text \<open>\<^verbatim>\<open>s.includes(t)\<close>: \<open>t\<close> occurs in \<open>s\<close> as a contiguous substring.\<close>

fun str_includes :: "string \<Rightarrow> string \<Rightarrow> bool" where
  "str_includes [] t = (t = [])"
| "str_includes (c # s) t = (prefix t (c # s) \<or> str_includes s t)"

text \<open>
  The outcome of one \<^verbatim>\<open>fetch\<close> followed by reading the body: the call threw (network
  error, with the error's message), the response was not OK (carrying the \<^verbatim>\<open>error\<close>
  property of the JSON body, \<open>None\<close> when the body has none or does not parse), or the
  response was OK with its decoded body.
\<close>

datatype 'a fetch_outcome =
    FetchThrew string
  | NotOk "string option"
  | Ok 'a

text \<open>The browser's \<^verbatim>\<open>localStorage\<close>: a map from keys to stored strings.\<close>

type_synonym storage = "string \<rightharpoonup> string"

definition removeItem :: "string \<Rightarrow> storage \<Rightarrow> storage" where
  "removeItem k st = st(k := None)"

definition getItem :: "string \<Rightarrow> storage \<Rightarrow> string option" where
  "getItem k st = st k"

definition setItem :: "string \<Rightarrow> string \<Rightarrow> storage \<Rightarrow> storage" where
  "setItem k v st = st(k \<mapsto> v)"

subsection \<open>Untyped values\<close>

text \<open>
  The values the code handles without a declared type (\<^verbatim>\<open>unknown\<close> or \<^verbatim>\<open>any\<close> in the
  source): the parameters of a provider request and the parsed body of a response that
  is not OK. Numbers are modelled at their finite integral values, with \<^verbatim>\<open>NaN\<close> apart;
  fractions and the infinities are not represented.
\<close>

datatype jsval =
    JUndefined
  | JNull
  | JBool bool
  | JNum int
  | JNaN
  | JBigInt int
  | JStr string
  | JArr "jsval list"
  | JObj "(string \<times> jsval) list"

text \<open>Property access on a value that is neither \<^verbatim>\<open>null\<close> nor \<^verbatim>\<open>undefined\<close>.\<close>

fun get_prop :: "jsval \<Rightarrow> string \<Rightarrow> jsval" where
  "get_prop (JObj ps) k = (case map_of ps k of Some v \<Rightarrow> v | None \<Rightarrow> JUndefined)"
| "get_prop _ k = JUndefined"

fun js_truthy :: "jsval \<Rightarrow> bool" where
  "js_truthy JUndefined = False"
| "js_truthy JNull = False"
| "js_truthy (JBool b) = b"
| "js_truthy (JNum n) = (n \<noteq> 0)"
| "js_truthy JNaN = False"
| "js_truthy (JBigInt n) = (n \<noteq> 0)"
| "js_truthy (JStr s) = (s \<noteq> [])"
| "js_truthy (JArr _) = True"
| "js_truthy (JObj _) = True"

text \<open>
  The two ways in which reading an error message out of such a value throws a
  \<^verbatim>\<open>TypeError\<close>: a property is read of \<^verbatim>\<open>null\<close> or \<^verbatim>\<open>undefined\<close>, or something that is not
  a function is called.
\<close>

datatype type_error = PropertyOfNullish | NotAFunction

text \<open>\<^verbatim>\<open>errorData.error || fallback\<close>\<close>

definition error_or :: "jsval \<Rightarrow> string \<Rightarrow> type_error + jsval" where
  "error_or errorData fallback =
     (if errorData = JNull \<or> errorData = JUndefined then Inl PropertyOfNullish
      else if js_truthy (get_prop errorData ''error'') then Inr (get_prop errorData ''error'')
      else Inr (JStr fallback))"

text \<open>
  \<^verbatim>\<open>errorMessage.includes(t)\<close> with a string \<open>t\<close>: the substring test on a string, the
  membership test on an array (an element equals \<open>t\<close> only when it is that string), and
  a call of something that is not a function on every other value.
\<close>

fun js_includes :: "jsval \<Rightarrow> string \<Rightarrow> type_error + bool" where
  "js_includes (JStr s) t = Inr (str_includes s t)"
| "js_includes (JArr xs) t = Inr (JStr t \<in> set xs)"
| "js_includes JUndefined t = Inl PropertyOfNullish"
| "js_includes JNull t = Inl PropertyOfNullish"
| "js_includes _ t = Inl NotAFunction"

text \<open>
  The outcome of a prepare request, whose error the code reads out of the body itself:
  a response that is not OK carries the value that
  \<^verbatim>\<open>await response.json().catch(() => ({}))\<close> gives, which is the parsed body, or the empty
  object when the body does not parse.
\<close>

datatype 'a prepare_outcome =
    PrepareThrew string
  | PrepareNotOk jsval
  | PrepareOk 'a

text \<open>
  The error of a failed result. The message is declared a string; what is stored
  there is the value the code has read, which after a prepare response that is not OK
  can be an array.
\<close>

record error_info =
  err_code :: string
  err_message :: jsval

section \<open>Cross-document messages\<close>

text \<open>
  One entry of \<^verbatim>\<open>message.data.batchResults\<close>, as the hosted dialog reports it.
\<close>

record raw_batch_result =
  rb_index :: nat
  rb_operationId :: "string option"
  rb_intentId :: "string option"
  rb_status :: string
  rb_error :: "string option"
  rb_success :: "bool option"

text \<open>
  \<^verbatim>\<open>event.data\<close> of a \<^verbatim>\<open>MessageEvent\<close>. \<open>mtype\<close> is \<^verbatim>\<open>event.data?.type\<close>, \<open>msuccess\<close> the
  truthiness of \<^verbatim>\<open>message.success\<close>, \<open>merror\<close> is \<^verbatim>\<open>message.error\<close>; the \<open>d_\<close> fields are
  the properties of the nested payload \<^verbatim>\<open>message.data\<close> that the listeners read. Opaque
  objects (a WebAuthn signature, passkey info, a user object) are strings; \<open>None\<close> is an
  absent property. \<open>m_height\<close> and \<open>m_width\<close> belong to the resize message.
\<close>

record msg_data =
  mtype :: "string option"
  msuccess :: bool
  merror :: "error_info option"
  d_requestId :: "string option"
  d_signature :: "string option"
  d_passkey :: "string option"
  d_signedHash :: "string option"
  d_intentId :: "string option"
  d_batchResults :: "raw_batch_result list option"
  d_username :: "string option"
  d_user :: "string option"
  d_accountAddress :: "string option"
  d_autoConnected :: "bool option"
  d_action :: "string option"
  d_url :: "string option"
  m_height :: string
  m_width :: "string option"

record message_event =
  origin :: string
  data :: msg_data

text \<open>
  What a session listener can receive: a cross-document message, or the native
  \<^verbatim>\<open>close\<close> event of the dialog element.
\<close>

datatype session_event = Message message_event | NativeClose

subsection \<open>Messages posted into the hosted frame\<close>

text \<open>
  A prepare response of the credential server. Its parts (quote, transaction
  breakdown, challenge, operation handle) are opaque to the SDK.
\<close>

record prepare_response =
  pr_transaction :: string
  pr_challenge :: string
  pr_expiresAt :: string
  pr_accountAddress :: "string option"
  pr_intentOp :: string
  pr_userId :: string
  pr_targetChain :: int
  pr_calls :: string
  pr_originMessages :: "string option"

record batch_prepare_response =
  bp_intents :: string
  bp_challenge :: string
  bp_expiresAt :: string
  bp_accountAddress :: "string option"
  bp_userId :: string

record intent_call =
  c_to :: string
  c_data :: "string option"
  c_value :: "string option"
  c_label :: "string option"
  c_sublabel :: "string option"

text \<open>The init payloads that the modelled callers of \<^verbatim>\<open>waitForDialogReady\<close> pass.\<close>

record intent_init =
  ii_calls :: "intent_call list"
  ii_chainId :: int
  ii_username :: "string option"
  ii_tokenRequests :: "(string \<times> string) list option"
  ii_prepared :: prepare_response

record batch_init =
  bn_batchIntents :: string
  bn_challenge :: string
  bn_username :: string
  bn_accountAddress :: "string option"
  bn_userId :: string
  bn_expiresAt :: string

datatype init_message =
    InitIframe
  | InitIntent intent_init
  | InitBatch batch_init

datatype outbound =
    PASSKEY_INIT init_message
  | PASSKEY_REFRESH_COMPLETE prepare_response
  | PASSKEY_REFRESH_COMPLETE_BATCH batch_prepare_response
  | PASSKEY_REFRESH_ERROR string
  | TRANSACTION_STATUS string "string option"

subsection \<open>Listeners as effect lists\<close>

text \<open>
  What a listener does, in program order: remove itself from the window, call the
  session's \<^verbatim>\<open>cleanup\<close>, pass a message and its target origin to
  \<^verbatim>\<open>iframe.contentWindow?.postMessage\<close> (which posts it into the frame, and does nothing
  when the frame has been removed from the document and has no window), resolve
  the promise it belongs to, wait for the dialog to close
  (\<^verbatim>\<open>await this.waitForDialogClose(dialog, cleanup)\<close>), remove a key of the local
  storage, resize the frame, hand over to the popup fallback, close the popup, stop
  the popup's poll timer, remove the embedded frame and call its \<^verbatim>\<open>onClose\<close>.
\<close>

datatype 'r effect =
    RemoveMessageListener
  | Cleanup
  | PostMessage outbound string
  | Resolve 'r
  | AwaitDialogClose
  | RemoveStoredUser string
  | SetFrameHeight string
  | SetFrameWidth string
  | RetryInPopup string
  | ClosePopup
  | ClearPollTimer
  | RemoveEmbed

text \<open>
  A listener is a function from its own state and an event to its next state and
  effects. \<open>listen\<close> delivers messages in order for as long as the listener is
  registered on the window, and collects everything it did.
\<close>

fun listen ::
  "('s \<Rightarrow> message_event \<Rightarrow> 's \<times> 'r effect list) \<Rightarrow> 's \<Rightarrow> message_event list
     \<Rightarrow> 's \<times> 'r effect list" where
  "listen h s [] = (s, [])"
| "listen h s (e # es) =
     (case h s e of (s', fx) \<Rightarrow>
        if RemoveMessageListener \<in> set fx then (s', fx)
        else (case listen h s' es of (s'', fx') \<Rightarrow> (s'', fx @ fx')))"

text \<open>A listener that keeps no state of its own.\<close>

definition stateless ::
  "(message_event \<Rightarrow> 'r effect list) \<Rightarrow> unit \<Rightarrow> message_event \<Rightarrow> unit \<times> 'r effect list" where
  "stateless h s event = (s, h event)"

text \<open>The value a promise settles with: the first \<^verbatim>\<open>resolve\<close> call wins.\<close>

fun first_resolve :: "'r effect list \<Rightarrow> 'r option" where
  "first_resolve [] = None"
| "first_resolve (Resolve r # fx) = Some r"
| "first_resolve (_ # fx) = first_resolve fx"

text \<open>The messages passed to \<^verbatim>\<open>postMessage\<close>, in order.\<close>

fun posted_of :: "'r effect list \<Rightarrow> outbound list" where
  "posted_of [] = []"
| "posted_of (PostMessage m targetOrigin # fx) = m # posted_of fx"
| "posted_of (_ # fx) = posted_of fx"

subsection \<open>The client configuration and the dialog origin\<close>

record client_config =
  providerUrl :: string
  dialogUrl :: string
  clientId :: "string option"

definition getDialogUrl :: "client_config \<Rightarrow> string" where
  "getDialogUrl config = (if dialogUrl config \<noteq> [] then dialogUrl config else providerUrl config)"

text \<open>
  \<^verbatim>\<open>getDialogOrigin\<close>. The platform's \<^verbatim>\<open>new URL(x).origin\<close> is the parameter
  \<open>URL_origin\<close>, \<open>None\<close> where the constructor throws.
\<close>

definition getDialogOrigin :: "(string \<Rightarrow> string option) \<Rightarrow> client_config \<Rightarrow> string" where
  "getDialogOrigin URL_origin config =
     (case URL_origin (getDialogUrl config) of
        Some org \<Rightarrow> org
      | None \<Rightarrow> getDialogUrl config)"

section \<open>Server-side intent signing\<close>

subsection \<open>Lower-casing and JSON text\<close>

text \<open>
  \<^verbatim>\<open>String.prototype.toLowerCase\<close> on the ASCII range, which is where hexadecimal
  addresses and calldata live: the letters \<open>A\<close> to \<open>Z\<close> move to \<open>a\<close> to \<open>z\<close>, every other
  character stays (characters are bytes here; letters outside ASCII are not lower-cased).
\<close>

definition upper_letters :: string where
  "upper_letters = ''ABCDEFGHIJKLMNOPQRSTUVWXYZ''"

definition lower_letters :: string where
  "lower_letters = ''abcdefghijklmnopqrstuvwxyz''"

definition is_upper :: "char \<Rightarrow> bool" where
  "is_upper c = (c \<in> set upper_letters)"

definition lower_char :: "char \<Rightarrow> char" where
  "lower_char c = (case map_of (zip upper_letters lower_letters) c of Some l \<Rightarrow> l | None \<Rightarrow> c)"

definition toLowerCase :: "string \<Rightarrow> string" where
  "toLowerCase s = map lower_char s"

text \<open>
  The JSON values \<^verbatim>\<open>createCanonicalMessage\<close> builds. Numbers are the integers chain
  identifiers and millisecond timestamps are.
\<close>

datatype json =
    JString string
  | JNumber int
  | JArray "json list"
  | JObject "(string \<times> json) list"

text \<open>
  An object literal whose property values may be \<^verbatim>\<open>undefined\<close>: \<^verbatim>\<open>JSON.stringify\<close>
  leaves such properties out.
\<close>

definition json_object :: "(string \<times> json option) list \<Rightarrow> json" where
  "json_object props = JObject [(k, v). (k, Some v) \<leftarrow> props]"

definition digit_char :: "nat \<Rightarrow> char" where
  "digit_char n = ''0123456789'' ! n"

fun digits :: "nat \<Rightarrow> string" where
  "digits n = (if n < 10 then [digit_char n] else digits (n div 10) @ [digit_char (n mod 10)])"

definition show_int :: "int \<Rightarrow> string" where
  "show_int i = (if i < 0 then CHR ''-'' # digits (nat (- i)) else digits (nat i))"

definition hex_char :: "nat \<Rightarrow> char" where
  "hex_char n = ''0123456789abcdef'' ! n"

text \<open>The escape of one character inside a JSON string (ECMAScript's QuoteJSONString).\<close>

definition escape_char :: "char \<Rightarrow> string" where
  "escape_char c =
     (if c = CHR 0x22 then [CHR 0x5C, CHR 0x22]
      else if c = CHR 0x5C then [CHR 0x5C, CHR 0x5C]
      else if c = CHR 0x08 then [CHR 0x5C, CHR ''b'']
      else if c = CHR 0x0C then [CHR 0x5C, CHR ''f'']
      else if c = CHR 0x0A then [CHR 0x5C, CHR ''n'']
      else if c = CHR 0x0D then [CHR 0x5C, CHR ''r'']
      else if c = CHR 0x09 then [CHR 0x5C, CHR ''t'']
      else if (of_char c :: nat) < 32
        then [CHR 0x5C, CHR ''u'', CHR ''0'', CHR ''0'',
              hex_char ((of_char c :: nat) div 16), hex_char ((of_char c :: nat) mod 16)]
      else [c])"

definition quote_json :: "string \<Rightarrow> string" where
  "quote_json s = CHR 0x22 # concat (map escape_char s) @ [CHR 0x22]"

fun join_commas :: "string list \<Rightarrow> string" where
  "join_commas [] = []"
| "join_commas [x] = x"
| "join_commas (x # y # ys) = x @ CHR '','' # join_commas (y # ys)"

fun JSON_stringify :: "json \<Rightarrow> string" where
  "JSON_stringify (JString s) = quote_json s"
| "JSON_stringify (JNumber i) = show_int i"
| "JSON_stringify (JArray xs) = CHR ''['' # join_commas (map JSON_stringify xs) @ [CHR '']'']"
| "JSON_stringify (JObject ps) =
     CHR ''{'' # join_commas (map (\<lambda>(k, v). quote_json k @ CHR '':'' # JSON_stringify v) ps)
       @ [CHR ''}'']"

subsection \<open>The canonical message and its signature\<close>

record canonical_data =
  cd_merchantId :: string
  cd_targetChain :: int
  cd_calls :: "intent_call list"
  cd_username :: "string option"
  cd_accountAddress :: "string option"
  cd_nonce :: string
  cd_expiresAt :: int

text \<open>The callback of \<^verbatim>\<open>data.calls.map\<close> in \<^verbatim>\<open>createCanonicalMessage\<close>.\<close>

definition canonical_call :: "intent_call \<Rightarrow> json" where
  "canonical_call c = json_object
     [(''to'', Some (JString (toLowerCase (c_to c)))),
      (''data'', Some (JString (toLowerCase (or_default (c_data c) ''0x'')))),
      (''value'', Some (JString (or_default (c_value c) ''0''))),
      (''label'', Some (JString (or_default (c_label c) ''''))),
      (''sublabel'', Some (JString (or_default (c_sublabel c) '''')))]"

definition createCanonicalMessage :: "canonical_data \<Rightarrow> string" where
  "createCanonicalMessage d = JSON_stringify (json_object
     [(''merchantId'', Some (JString (cd_merchantId d))),
      (''targetChain'', Some (JNumber (cd_targetChain d))),
      (''calls'', Some (JArray (map canonical_call (cd_calls d)))),
      (''username'', map_option JString (cd_username d)),
      (''accountAddress'', map_option (\<lambda>a. JString (toLowerCase a)) (cd_accountAddress d)),
      (''nonce'', Some (JString (cd_nonce d))),
      (''expiresAt'', Some (JNumber (cd_expiresAt d)))])"

record developer_config =
  dc_developerId :: "string option"
  dc_merchantId :: "string option"
  dc_privateKey :: string
  dc_expiryMs :: "int option"

record sign_intent_params =
  sp_username :: "string option"
  sp_accountAddress :: "string option"
  sp_targetChain :: int
  sp_calls :: "intent_call list"
  sp_tokenRequests :: "(string \<times> string) list option"

record signed_intent =
  si_merchantId :: string
  si_developerId :: "string option"
  si_targetChain :: int
  si_calls :: "intent_call list"
  si_username :: "string option"
  si_accountAddress :: "string option"
  si_nonce :: string
  si_expiresAt :: int
  si_signature :: string
  si_tokenRequests :: "(string \<times> string) list option"

text \<open>
  \<^verbatim>\<open>signIntent\<close>. The Ed25519 signing primitive of the platform
  (\<^verbatim>\<open>crypto.sign(null, message, key)\<close>, base64-encoded; \<open>Inl\<close> when it throws, for
  instance on a bad key), the fresh nonce (\<^verbatim>\<open>crypto.randomUUID()\<close>) and the clock (\<^verbatim>\<open>Date.now()\<close>) are
  parameters. \<open>Inl\<close> is a thrown error with its message.
\<close>

definition signIntent ::
  "(string \<Rightarrow> string \<Rightarrow> string + string) \<Rightarrow> string \<Rightarrow> int
     \<Rightarrow> sign_intent_params \<Rightarrow> developer_config \<Rightarrow> string + signed_intent" where
  "signIntent sign randomUUID now params config =
     (let expiryMs = (case dc_expiryMs config of None \<Rightarrow> 5 * 60 * 1000 | Some e \<Rightarrow> e);
          developerId = or_else (dc_developerId config) (dc_merchantId config)
      in if \<not> truthy developerId \<or> dc_privateKey config = []
           then Inl ''Missing developerId (clientId) or privateKey in config''
         else if \<not> truthy (sp_username params) \<and> \<not> truthy (sp_accountAddress params)
           then Inl ''Either username or accountAddress is required''
         else if sp_targetChain params = 0 \<or> sp_calls params = []
           then Inl ''targetChain and calls are required''
         else
           let nonce = randomUUID;
               expiresAt = now + expiryMs;
               intentData = \<lparr>cd_merchantId = the developerId,
                             cd_targetChain = sp_targetChain params,
                             cd_calls = sp_calls params,
                             cd_username = sp_username params,
                             cd_accountAddress = sp_accountAddress params,
                             cd_nonce = nonce,
                             cd_expiresAt = expiresAt\<rparr>;
               message = createCanonicalMessage intentData
           in case sign message (dc_privateKey config) of
                Inl thrown \<Rightarrow> Inl thrown
              | Inr signature \<Rightarrow>
                  Inr \<lparr>si_merchantId = the developerId,
                       si_developerId = developerId,
                       si_targetChain = sp_targetChain params,
                       si_calls = sp_calls params,
                       si_username = sp_username params,
                       si_accountAddress = sp_accountAddress params,
                       si_nonce = nonce,
                       si_expiresAt = expiresAt,
                       si_signature = signature,
                       si_tokenRequests = sp_tokenRequests params\<rparr>)"

subsection \<open>Inputs that differ only in casing and in defaulted fields\<close>

text \<open>Two characters are the same letter in possibly different case.\<close>

definition same_letter :: "char \<Rightarrow> char \<Rightarrow> bool" where
  "same_letter a b =
     (a = b \<or> (is_upper a \<and> b = lower_char a) \<or> (is_upper b \<and> a = lower_char b))"

fun same_modulo_case :: "string \<Rightarrow> string \<Rightarrow> bool" where
  "same_modulo_case [] [] = True"
| "same_modulo_case (a # as) (b # bs) = (same_letter a b \<and> same_modulo_case as bs)"
| "same_modulo_case _ _ = False"

text \<open>An optional field is the same on both sides, or absent on one and its default on the other.\<close>

definition absent_or_default :: "string \<Rightarrow> string option \<Rightarrow> string option \<Rightarrow> bool" where
  "absent_or_default d a b = (a = b \<or> (a = None \<and> b = Some d) \<or> (a = Some d \<and> b = None))"

text \<open>The same for \<open>data\<close>, whose letters may also differ in case.\<close>

fun absent_or_default_ci :: "string \<Rightarrow> string option \<Rightarrow> string option \<Rightarrow> bool" where
  "absent_or_default_ci d None None = True"
| "absent_or_default_ci d (Some x) (Some y) = same_modulo_case x y"
| "absent_or_default_ci d None (Some y) = same_modulo_case d y"
| "absent_or_default_ci d (Some x) None = same_modulo_case x d"

definition call_variant :: "intent_call \<Rightarrow> intent_call \<Rightarrow> bool" where
  "call_variant c c' =
     (same_modulo_case (c_to c) (c_to c') \<and>
      absent_or_default_ci ''0x'' (c_data c) (c_data c') \<and>
      absent_or_default ''0'' (c_value c) (c_value c') \<and>
      absent_or_default '''' (c_label c) (c_label c') \<and>
      absent_or_default '''' (c_sublabel c) (c_sublabel c'))"

definition address_variant :: "string option \<Rightarrow> string option \<Rightarrow> bool" where
  "address_variant a b =
     (case (a, b) of (None, None) \<Rightarrow> True
                   | (Some x, Some y) \<Rightarrow> same_modulo_case x y
                   | _ \<Rightarrow> False)"

definition params_variant :: "sign_intent_params \<Rightarrow> sign_intent_params \<Rightarrow> bool" where
  "params_variant p p' =
     (sp_username p = sp_username p' \<and>
      sp_targetChain p = sp_targetChain p' \<and>
      address_variant (sp_accountAddress p) (sp_accountAddress p') \<and>
      list_all2 call_variant (sp_calls p) (sp_calls p'))"

text \<open>
  Two sets of canonical-message fields, and two sets of signing parameters, that differ
  only in the casing of addresses and calldata and in defaulted optional call fields.
\<close>

definition data_variant :: "canonical_data \<Rightarrow> canonical_data \<Rightarrow> bool" where
  "data_variant d d' =
     (cd_merchantId d = cd_merchantId d' \<and>
      cd_targetChain d = cd_targetChain d' \<and>
      cd_username d = cd_username d' \<and>
      cd_nonce d = cd_nonce d' \<and>
      cd_expiresAt d = cd_expiresAt d' \<and>
      address_variant (cd_accountAddress d) (cd_accountAddress d') \<and>
      list_all2 call_variant (cd_calls d) (cd_calls d'))"

definition canonical_example_upper :: canonical_data where
  "canonical_example_upper =
     \<lparr>cd_merchantId = ''dev-1'', cd_targetChain = 8453,
      cd_calls = [\<lparr>c_to = ''0xABCDEF0000000000000000000000000000000001'', c_data = Some ''0xA9059CBB'',
                  c_value = Some ''0'', c_label = Some '''', c_sublabel = None\<rparr>,
                 \<lparr>c_to = ''0x00000000000000000000000000000000000000Aa'', c_data = None,
                  c_value = None, c_label = Some ''Pay'', c_sublabel = Some ''''\<rparr>],
      cd_username = Some ''alice'', cd_accountAddress = Some ''0xAbC0000000000000000000000000000000000002'',
      cd_nonce = ''n-1'', cd_expiresAt = 1700000300000\<rparr>"

definition canonical_example_lower :: canonical_data where
  "canonical_example_lower =
     \<lparr>cd_merchantId = ''dev-1'', cd_targetChain = 8453,
      cd_calls = [\<lparr>c_to = ''0xabcdef0000000000000000000000000000000001'', c_data = Some ''0xa9059cbb'',
                  c_value = None, c_label = None, c_sublabel = Some ''''\<rparr>,
                 \<lparr>c_to = ''0x00000000000000000000000000000000000000aa'', c_data = Some ''0X'',
                  c_value = Some ''0'', c_label = Some ''Pay'', c_sublabel = None\<rparr>],
      cd_username = Some ''alice'', cd_accountAddress = Some ''0xabc0000000000000000000000000000000000002'',
      cd_nonce = ''n-1'', cd_expiresAt = 1700000300000\<rparr>"

definition params_example_upper :: sign_intent_params where
  "params_example_upper =
     \<lparr>sp_username = Some ''alice'',
      sp_accountAddress = cd_accountAddress canonical_example_upper,
      sp_targetChain = 8453,
      sp_calls = cd_calls canonical_example_upper,
      sp_tokenRequests = None\<rparr>"

definition params_example_lower :: sign_intent_params where
  "params_example_lower =
     \<lparr>sp_username = Some ''alice'',
      sp_accountAddress = cd_accountAddress canonical_example_lower,
      sp_targetChain = 8453,
      sp_calls = cd_calls canonical_example_lower,
      sp_tokenRequests = None\<rparr>"

definition config_example :: developer_config where
  "config_example =
     \<lparr>dc_developerId = Some ''dev-1'', dc_merchantId = None, dc_privateKey = ''key'',
      dc_expiryMs = None\<rparr>"

section \<open>The message listeners of the client\<close>

text \<open>
  Every listener below is the \<^verbatim>\<open>handleMessage\<close> closure of the method it is named after,
  with the values the closure captures as leading parameters.
\<close>

subsection \<open>Results the listeners resolve with\<close>

record signing_result =
  sg_success :: bool
  sg_requestId :: "string option"
  sg_signature :: "string option"
  sg_passkey :: "string option"
  sg_signedHash :: "string option"
  sg_intentId :: "string option"
  sg_error :: "error_info option"

record auth_result =
  au_success :: bool
  au_username :: "string option"
  au_user :: "string option"
  au_error :: "error_info option"

record authenticate_result =
  at_success :: bool
  at_username :: "string option"
  at_user :: "string option"
  at_accountAddress :: "string option"
  at_signature :: "string option"
  at_signedHash :: "string option"
  at_error :: "error_info option"

record connect_result =
  cn_success :: bool
  cn_username :: "string option"
  cn_autoConnected :: "bool option"
  cn_action :: "string option"
  cn_error :: "error_info option"

definition signing_none :: signing_result where
  "signing_none = \<lparr>sg_success = False, sg_requestId = None, sg_signature = None,
     sg_passkey = None, sg_signedHash = None, sg_intentId = None, sg_error = None\<rparr>"

text \<open>\<^verbatim>\<open>message.error || { code: "SIGNING_FAILED", message: "Signing failed" }\<close>\<close>

definition error_or_signing_failed :: "error_info option \<Rightarrow> error_info" where
  "error_or_signing_failed e =
     (case e of Some err \<Rightarrow> err
              | None \<Rightarrow> \<lparr>err_code = ''SIGNING_FAILED'', err_message = JStr ''Signing failed''\<rparr>)"

definition user_rejected :: "string \<Rightarrow> error_info" where
  "user_rejected msg = \<lparr>err_code = ''USER_REJECTED'', err_message = JStr msg\<rparr>"

definition user_cancelled :: "string \<Rightarrow> error_info" where
  "user_cancelled msg = \<lparr>err_code = ''USER_CANCELLED'', err_message = JStr msg\<rparr>"

subsection \<open>Signing waiters\<close>

text \<open>The part shared by the two waiters that accept an intent id or a signature.\<close>

definition signing_outcome :: "msg_data \<Rightarrow> signing_result" where
  "signing_outcome message =
     (if msuccess message \<and> truthy (d_intentId message)
        then signing_none\<lparr>sg_success := True, sg_intentId := d_intentId message\<rparr>
      else if msuccess message \<and> d_signature message \<noteq> None
        then signing_none\<lparr>sg_success := True, sg_signature := d_signature message,
               sg_passkey := d_passkey message, sg_signedHash := d_signedHash message\<rparr>
      else signing_none\<lparr>sg_error := Some (error_or_signing_failed (merror message))\<rparr>)"

definition waitForSigningResponse_handleMessage ::
  "string \<Rightarrow> message_event \<Rightarrow> signing_result effect list" where
  "waitForSigningResponse_handleMessage dialogOrigin event =
     (if origin event \<noteq> dialogOrigin then []
      else let message = data event in
        if mtype message = Some ''PASSKEY_SIGNING_RESULT''
          then [RemoveMessageListener, Resolve (signing_outcome message)]
        else if mtype message = Some ''PASSKEY_CLOSE''
          then [RemoveMessageListener, Cleanup,
                Resolve (signing_none\<lparr>sg_error := Some (user_rejected ''User closed the dialog'')\<rparr>)]
        else [])"

text \<open>
  \<^verbatim>\<open>waitForSigningWithRefresh\<close>: \<open>onRefresh\<close> is the caller's callback, acting on the
  caller's state \<open>'s\<close> and returning the refreshed quote or \<open>None\<close> (\<^verbatim>\<open>null\<close>).
\<close>

definition waitForSigningWithRefresh_handleMessage ::
  "string \<Rightarrow> ('s \<Rightarrow> 's \<times> prepare_response option) \<Rightarrow> 's \<Rightarrow> message_event
     \<Rightarrow> 's \<times> signing_result effect list" where
  "waitForSigningWithRefresh_handleMessage dialogOrigin onRefresh s event =
     (if origin event \<noteq> dialogOrigin then (s, [])
      else let message = data event in
        if mtype message = Some ''PASSKEY_REFRESH_QUOTE'' then
          (case onRefresh s of
             (s', Some refreshedData) \<Rightarrow>
               (s', [PostMessage (PASSKEY_REFRESH_COMPLETE refreshedData) dialogOrigin])
           | (s', None) \<Rightarrow>
               (s', [PostMessage (PASSKEY_REFRESH_ERROR ''Failed to refresh quote'') dialogOrigin]))
        else if mtype message = Some ''PASSKEY_SIGNING_RESULT''
          then (s, [RemoveMessageListener, Resolve (signing_outcome message)])
        else if mtype message = Some ''PASSKEY_CLOSE''
          then (s, [RemoveMessageListener, Cleanup,
                    Resolve (signing_none\<lparr>sg_error := Some (user_rejected ''User closed the dialog'')\<rparr>)])
        else (s, []))"

text \<open>The three waiters that match a request id.\<close>

definition waitForIntentSigningResponse_handleMessage ::
  "string \<Rightarrow> string \<Rightarrow> message_event \<Rightarrow> signing_result effect list" where
  "waitForIntentSigningResponse_handleMessage dialogOrigin requestId event =
     (if origin event \<noteq> dialogOrigin then []
      else let message = data event in
        if mtype message = Some ''PASSKEY_SIGNING_RESULT'' \<and> d_requestId message = Some requestId
          then [RemoveMessageListener,
                Resolve (if msuccess message \<and> d_signature message \<noteq> None
                         then signing_none\<lparr>sg_success := True, sg_requestId := Some requestId,
                                sg_signature := d_signature message, sg_passkey := d_passkey message\<rparr>
                         else signing_none\<lparr>sg_error := Some (error_or_signing_failed (merror message))\<rparr>)]
        else if mtype message = Some ''PASSKEY_CLOSE''
          then [RemoveMessageListener, Cleanup,
                Resolve (signing_none\<lparr>sg_error := Some (user_rejected ''User closed the dialog'')\<rparr>)]
        else [])"

definition request_signing_outcome :: "string \<Rightarrow> msg_data \<Rightarrow> signing_result" where
  "request_signing_outcome requestId message =
     (if msuccess message \<and> d_signature message \<noteq> None
      then signing_none\<lparr>sg_success := True, sg_requestId := Some requestId,
             sg_signature := d_signature message\<rparr>
      else signing_none\<lparr>sg_requestId := Some requestId, sg_error := merror message\<rparr>)"

definition waitForModalSigningResponse_handleMessage ::
  "string \<Rightarrow> string \<Rightarrow> message_event \<Rightarrow> signing_result effect list" where
  "waitForModalSigningResponse_handleMessage dialogOrigin requestId event =
     (if origin event \<noteq> dialogOrigin then []
      else let message = data event in
        if mtype message = Some ''PASSKEY_SIGNING_RESULT'' \<and> d_requestId message = Some requestId
          then [RemoveMessageListener, Cleanup, Resolve (request_signing_outcome requestId message)]
        else if mtype message = Some ''PASSKEY_CLOSE''
          then [RemoveMessageListener, Cleanup,
                Resolve (signing_none\<lparr>sg_requestId := Some requestId,
                           sg_error := Some (user_rejected ''Signing was cancelled'')\<rparr>)]
        else [])"

definition waitForPopupResponse_handleMessage ::
  "string \<Rightarrow> string \<Rightarrow> message_event \<Rightarrow> signing_result effect list" where
  "waitForPopupResponse_handleMessage dialogOrigin requestId event =
     (if origin event \<noteq> dialogOrigin then []
      else let message = data event in
        if mtype message = Some ''PASSKEY_SIGNING_RESULT'' \<and> d_requestId message = Some requestId
          then [ClearPollTimer, RemoveMessageListener, ClosePopup,
                Resolve (request_signing_outcome requestId message)]
        else [])"

definition waitForEmbedResponse_handleMessage ::
  "string \<Rightarrow> string \<Rightarrow> message_event \<Rightarrow> signing_result effect list" where
  "waitForEmbedResponse_handleMessage dialogOrigin requestId event =
     (if origin event \<noteq> dialogOrigin then []
      else let message = data event in
        if mtype message = Some ''PASSKEY_SIGNING_RESULT'' \<and> d_requestId message = Some requestId
          then [RemoveMessageListener, RemoveEmbed,
                Resolve (request_signing_outcome requestId message)]
        else [])"

subsection \<open>Auth, authenticate and connect waiters\<close>

definition auth_none :: auth_result where
  "auth_none = \<lparr>au_success = False, au_username = None, au_user = None, au_error = None\<rparr>"

definition login_outcome :: "msg_data \<Rightarrow> auth_result" where
  "login_outcome d =
     (if msuccess d
      then auth_none\<lparr>au_success := True, au_username := d_username d, au_user := d_user d\<rparr>
      else auth_none\<lparr>au_error := merror d\<rparr>)"

definition register_outcome :: "msg_data \<Rightarrow> auth_result" where
  "register_outcome d =
     (if msuccess d
      then auth_none\<lparr>au_success := True, au_username := d_username d\<rparr>
      else auth_none\<lparr>au_error := merror d\<rparr>)"

text \<open>\<^verbatim>\<open>s.replace(pat, rep)\<close> with a string pattern: the first occurrence is replaced.\<close>

fun replace_first :: "string \<Rightarrow> string \<Rightarrow> string \<Rightarrow> string" where
  "replace_first pat rep [] = (if pat = [] then rep else [])"
| "replace_first pat rep (c # s) =
     (if prefix pat (c # s) then rep @ drop (length pat) (c # s)
      else c # replace_first pat rep s)"

definition popupUrl_of :: "client_config \<Rightarrow> msg_data \<Rightarrow> string" where
  "popupUrl_of config d =
     or_default (map_option (replace_first ''mode=iframe'' ''mode=popup'') (d_url d))
       (getDialogUrl config @ ''/dialog/auth?mode=popup''
          @ (if truthy (clientId config) then ''&clientId='' @ the (clientId config) else ''''))"

text \<open>
  \<^verbatim>\<open>waitForModalAuthResponse\<close>: the listener's own state is the flag \<^verbatim>\<open>dialogReady\<close>.
\<close>

definition waitForModalAuthResponse_handleMessage ::
  "string \<Rightarrow> client_config \<Rightarrow> bool \<Rightarrow> message_event \<Rightarrow> bool \<times> auth_result effect list" where
  "waitForModalAuthResponse_handleMessage dialogOrigin config dialogReady event =
     (if origin event \<noteq> dialogOrigin then (dialogReady, [])
      else let d = data event in
        if mtype d = Some ''PASSKEY_READY''
          then (True, [PostMessage (PASSKEY_INIT InitIframe) dialogOrigin])
        else if \<not> dialogReady \<and> mtype d = Some ''PASSKEY_CLOSE''
          then (dialogReady, [])
        else if mtype d = Some ''PASSKEY_LOGIN_RESULT''
          then (dialogReady, [RemoveMessageListener, Cleanup, Resolve (login_outcome d)])
        else if mtype d = Some ''PASSKEY_REGISTER_RESULT''
          then (dialogReady, [RemoveMessageListener, Cleanup, Resolve (register_outcome d)])
        else if mtype d = Some ''PASSKEY_RETRY_POPUP''
          then (dialogReady, [RemoveMessageListener, Cleanup, RetryInPopup (popupUrl_of config d)])
        else if mtype d = Some ''PASSKEY_CLOSE''
          then (dialogReady, [RemoveMessageListener, Cleanup,
                  Resolve (auth_none\<lparr>au_error := Some (user_cancelled ''Authentication was cancelled'')\<rparr>)])
        else (dialogReady, []))"

definition waitForPopupAuthResponse_handleMessage ::
  "string \<Rightarrow> message_event \<Rightarrow> auth_result effect list" where
  "waitForPopupAuthResponse_handleMessage dialogOrigin event =
     (if origin event \<noteq> dialogOrigin then []
      else let d = data event in
        if mtype d = Some ''PASSKEY_LOGIN_RESULT''
          then [ClearPollTimer, RemoveMessageListener, ClosePopup, Resolve (login_outcome d)]
        else if mtype d = Some ''PASSKEY_REGISTER_RESULT''
          then [ClearPollTimer, RemoveMessageListener, ClosePopup, Resolve (register_outcome d)]
        else if mtype d = Some ''PASSKEY_CLOSE''
          then [ClearPollTimer, RemoveMessageListener, ClosePopup,
                Resolve (auth_none\<lparr>au_error := Some (user_cancelled ''Authentication was cancelled'')\<rparr>)]
        else [])"

definition authenticate_none :: authenticate_result where
  "authenticate_none = \<lparr>at_success = False, at_username = None, at_user = None,
     at_accountAddress = None, at_signature = None, at_signedHash = None, at_error = None\<rparr>"

definition waitForAuthenticateResponse_handleMessage ::
  "string \<Rightarrow> message_event \<Rightarrow> authenticate_result effect list" where
  "waitForAuthenticateResponse_handleMessage dialogOrigin event =
     (if origin event \<noteq> dialogOrigin then []
      else let d = data event in
        if mtype d = Some ''PASSKEY_AUTHENTICATE_RESULT''
          then [RemoveMessageListener, Cleanup,
                Resolve (if msuccess d
                         then \<lparr>at_success = True, at_username = d_username d, at_user = d_user d,
                               at_accountAddress = d_accountAddress d,
                               at_signature = d_signature d, at_signedHash = d_signedHash d,
                               at_error = None\<rparr>
                         else authenticate_none\<lparr>at_error := merror d\<rparr>)]
        else if mtype d = Some ''PASSKEY_CLOSE''
          then [RemoveMessageListener, Cleanup,
                Resolve (authenticate_none
                           \<lparr>at_error := Some (user_cancelled ''Authentication was cancelled'')\<rparr>)]
        else [])"

definition connect_none :: connect_result where
  "connect_none = \<lparr>cn_success = False, cn_username = None, cn_autoConnected = None,
     cn_action = None, cn_error = None\<rparr>"

definition waitForConnectResponse_handleMessage ::
  "string \<Rightarrow> message_event \<Rightarrow> connect_result effect list" where
  "waitForConnectResponse_handleMessage dialogOrigin event =
     (if origin event \<noteq> dialogOrigin then []
      else let d = data event in
        if mtype d = Some ''PASSKEY_CONNECT_RESULT''
          then [RemoveMessageListener, Cleanup,
                Resolve (if msuccess d
                         then connect_none\<lparr>cn_success := True, cn_username := d_username d,
                                cn_autoConnected := d_autoConnected d\<rparr>
                         else connect_none\<lparr>cn_action := d_action d, cn_error := merror d\<rparr>)]
        else if mtype d = Some ''PASSKEY_CLOSE''
          then [RemoveMessageListener, Cleanup,
                Resolve (connect_none\<lparr>cn_action := Some ''cancel'',
                           cn_error := Some (user_cancelled ''Connection was cancelled'')\<rparr>)]
        else [])"

subsection \<open>Dialog host listeners\<close>

text \<open>
  The resize and disconnect listener of \<^verbatim>\<open>createModalDialog\<close>; it compares with
  \<^verbatim>\<open>hostUrl.origin\<close>. A width of \<open>None\<close> is a falsy \<^verbatim>\<open>event.data.width\<close>.
\<close>

definition createModalDialog_handleMessage ::
  "string \<Rightarrow> message_event \<Rightarrow> unit effect list" where
  "createModalDialog_handleMessage hostOrigin event =
     (if origin event \<noteq> hostOrigin then []
      else if mtype (data event) = Some ''PASSKEY_RESIZE''
        then SetFrameHeight (m_height (data event) @ ''px'') #
             (case m_width (data event) of
                Some w \<Rightarrow> [SetFrameWidth (w @ ''px'')]
              | None \<Rightarrow> [])
      else if mtype (data event) = Some ''PASSKEY_DISCONNECT''
        then [RemoveStoredUser ''1auth-user'']
      else [])"

definition waitForDialogClose_handleMessage ::
  "string \<Rightarrow> message_event \<Rightarrow> unit effect list" where
  "waitForDialogClose_handleMessage dialogOrigin event =
     (if origin event \<noteq> dialogOrigin then []
      else if mtype (data event) = Some ''PASSKEY_CLOSE''
        then [RemoveMessageListener, Cleanup, Resolve ()]
      else [])"

text \<open>
  \<^verbatim>\<open>waitForDialogClose\<close> over the events delivered while it waits: it settles at the
  first guarded \<^verbatim>\<open>PASSKEY_CLOSE\<close> message or native close event. \<open>False\<close> is a dialog
  that is never closed, so that the promise stays pending.
\<close>

fun waitForDialogClose :: "string \<Rightarrow> session_event list \<Rightarrow> bool" where
  "waitForDialogClose dialogOrigin [] = False"
| "waitForDialogClose dialogOrigin (NativeClose # es) = True"
| "waitForDialogClose dialogOrigin (Message ev # es) =
     (if first_resolve (waitForDialogClose_handleMessage dialogOrigin ev) = Some () then True
      else waitForDialogClose dialogOrigin es)"

section \<open>The dialog host\<close>

text \<open>
  The part of the document that \<^verbatim>\<open>createModalDialog\<close> touches: whether its resize and
  disconnect listener is registered on the window, whether its escape listener is
  registered on the document, whether the dialog element is open and attached, and
  how many \<^verbatim>\<open>close\<close> events the element has been made to raise.
\<close>

record dom_state =
  modal_message_listener :: bool
  keydown_listener :: bool
  dialog_open :: bool
  dialog_attached :: bool
  close_events_raised :: nat

text \<open>
  The platform operations \<^verbatim>\<open>cleanup\<close> calls, as the HTML standard defines them:
  removing a listener that is not registered does nothing; \<^verbatim>\<open>dialog.close()\<close> returns
  at once when the element is not open, and otherwise closes it and queues one
  \<^verbatim>\<open>close\<close> event; \<^verbatim>\<open>dialog.remove()\<close> detaches the element and does nothing when it has
  no parent. None of them throws.
\<close>

definition removeMessageListener :: "dom_state \<Rightarrow> dom_state" where
  "removeMessageListener s = s\<lparr>modal_message_listener := False\<rparr>"

definition removeKeydownListener :: "dom_state \<Rightarrow> dom_state" where
  "removeKeydownListener s = s\<lparr>keydown_listener := False\<rparr>"

definition dialog_close :: "dom_state \<Rightarrow> dom_state" where
  "dialog_close s =
     (if dialog_open s
      then s\<lparr>dialog_open := False, close_events_raised := Suc (close_events_raised s)\<rparr>
      else s)"

definition dialog_remove :: "dom_state \<Rightarrow> dom_state" where
  "dialog_remove s = s\<lparr>dialog_attached := False\<rparr>"

text \<open>The closure \<^verbatim>\<open>cleanup\<close> returned by \<^verbatim>\<open>createModalDialog\<close>.\<close>

definition cleanup :: "dom_state \<Rightarrow> dom_state" where
  "cleanup s = dialog_remove (dialog_close (removeKeydownListener (removeMessageListener s)))"

text \<open>
  \<^verbatim>\<open>createModalDialog\<close>: \<^verbatim>\<open>new URL(dialogUrl)\<close> throws on a malformed URL (\<open>None\<close>);
  otherwise the dialog is appended, both listeners are registered and the dialog is
  shown. The result is the origin the resize listener compares with, and the
  document state.
\<close>

definition createModalDialog ::
  "(string \<Rightarrow> string option) \<Rightarrow> client_config \<Rightarrow> (string \<times> dom_state) option" where
  "createModalDialog URL_origin config =
     (case URL_origin (getDialogUrl config) of
        None \<Rightarrow> None
      | Some hostOrigin \<Rightarrow>
          Some (hostOrigin,
                \<lparr>modal_message_listener = True, keydown_listener = True, dialog_open = True,
                 dialog_attached = True, close_events_raised = 0\<rparr>))"

text \<open>
  The ways \<^verbatim>\<open>cleanup\<close> gets invoked on a session: a key press seen by
  \<^verbatim>\<open>handleEscape\<close>, a click seen by the dialog's click listener (on the backdrop or
  on something inside), and a direct call by a waiter (close message, normal
  completion).
\<close>

datatype trigger = KeyDown string | Click bool | CleanupCall

fun handleEscape :: "string \<Rightarrow> dom_state \<Rightarrow> dom_state" where
  "handleEscape key s = (if key = ''Escape'' then cleanup s else s)"

fun handleClick :: "bool \<Rightarrow> dom_state \<Rightarrow> dom_state" where
  "handleClick target_is_dialog s = (if target_is_dialog then cleanup s else s)"

text \<open>
  A trigger acts only through a listener that is still registered; the click listener
  is on the dialog element itself and is never removed.
\<close>

fun fire :: "dom_state \<Rightarrow> trigger \<Rightarrow> dom_state" where
  "fire s (KeyDown key) = (if keydown_listener s then handleEscape key s else s)"
| "fire s (Click target_is_dialog) = handleClick target_is_dialog s"
| "fire s CleanupCall = cleanup s"


section \<open>The ready handshake\<close>

text \<open>
  The state of one \<^verbatim>\<open>waitForDialogReady\<close> call: the flag \<^verbatim>\<open>settled\<close>, whether its
  message listener and its close listener are registered, what it has passed to
  \<^verbatim>\<open>iframe.contentWindow?.postMessage\<close>, how often it has called the session's
  \<^verbatim>\<open>cleanup\<close>, and what its promise has resolved with.
\<close>

record handshake_state =
  settled :: bool
  message_listener :: bool
  close_listener :: bool
  hs_posted :: "(outbound \<times> string) list"
  hs_cleanups :: nat
  hs_resolved :: "bool option"

definition waitForDialogReady_start :: handshake_state where
  "waitForDialogReady_start =
     \<lparr>settled = False, message_listener = True, close_listener = True, hs_posted = [],
      hs_cleanups = 0, hs_resolved = None\<rparr>"

definition teardown :: "handshake_state \<Rightarrow> handshake_state" where
  "teardown s =
     (if settled s then s
      else s\<lparr>settled := True, message_listener := False, close_listener := False\<rparr>)"

text \<open>\<^verbatim>\<open>resolve(b)\<close>: a promise keeps the first value it is resolved with.\<close>

definition resolve :: "bool \<Rightarrow> handshake_state \<Rightarrow> handshake_state" where
  "resolve b s = (case hs_resolved s of None \<Rightarrow> s\<lparr>hs_resolved := Some b\<rparr> | Some _ \<Rightarrow> s)"

definition ready_handleMessage ::
  "string \<Rightarrow> init_message \<Rightarrow> message_event \<Rightarrow> handshake_state \<Rightarrow> handshake_state" where
  "ready_handleMessage dialogOrigin initMessage event s =
     (if origin event \<noteq> dialogOrigin then s
      else if mtype (data event) = Some ''PASSKEY_READY'' then
        (let s1 = teardown s;
             s2 = s1\<lparr>hs_posted := hs_posted s1 @ [(PASSKEY_INIT initMessage, dialogOrigin)]\<rparr>
         in resolve True s2)
      else if mtype (data event) = Some ''PASSKEY_CLOSE'' then
        (let s1 = teardown s;
             s2 = s1\<lparr>hs_cleanups := Suc (hs_cleanups s1)\<rparr>
         in resolve False s2)
      else s)"

definition ready_handleClose :: "handshake_state \<Rightarrow> handshake_state" where
  "ready_handleClose s = resolve False (teardown s)"

text \<open>An event reaches a handler only while that handler is registered.\<close>

fun ready_deliver ::
  "string \<Rightarrow> init_message \<Rightarrow> handshake_state \<Rightarrow> session_event \<Rightarrow> handshake_state" where
  "ready_deliver dialogOrigin initMessage s (Message event) =
     (if message_listener s then ready_handleMessage dialogOrigin initMessage event s else s)"
| "ready_deliver dialogOrigin initMessage s NativeClose =
     (if close_listener s then ready_handleClose s else s)"

definition waitForDialogReady ::
  "string \<Rightarrow> init_message \<Rightarrow> session_event list \<Rightarrow> handshake_state" where
  "waitForDialogReady dialogOrigin initMessage events =
     foldl (ready_deliver dialogOrigin initMessage) waitForDialogReady_start events"

text \<open>
  The events that settle a handshake that is still waiting: a guarded ready signal, a
  guarded close signal, the native close event.
\<close>

fun is_ready_signal :: "string \<Rightarrow> session_event \<Rightarrow> bool" where
  "is_ready_signal dialogOrigin (Message event) =
     (origin event = dialogOrigin \<and> mtype (data event) = Some ''PASSKEY_READY'')"
| "is_ready_signal dialogOrigin NativeClose = False"

fun is_close_signal :: "string \<Rightarrow> session_event \<Rightarrow> bool" where
  "is_close_signal dialogOrigin (Message event) =
     (origin event = dialogOrigin \<and> mtype (data event) \<noteq> Some ''PASSKEY_READY''
        \<and> mtype (data event) = Some ''PASSKEY_CLOSE'')"
| "is_close_signal dialogOrigin NativeClose = False"

definition decisive :: "string \<Rightarrow> session_event \<Rightarrow> bool" where
  "decisive dialogOrigin ev =
     (ev = NativeClose \<or> is_ready_signal dialogOrigin ev \<or> is_close_signal dialogOrigin ev)"

text \<open>
  The two shapes of a settled handshake: readiness declared and the init payload
  posted, or closed after \<open>n\<close> calls of \<^verbatim>\<open>cleanup\<close>.
\<close>

definition settled_ready :: "string \<Rightarrow> init_message \<Rightarrow> handshake_state" where
  "settled_ready dO init = \<lparr>settled = True, message_listener = False, close_listener = False,
     hs_posted = [(PASSKEY_INIT init, dO)], hs_cleanups = 0, hs_resolved = Some True\<rparr>"

definition settled_closed :: "nat \<Rightarrow> handshake_state" where
  "settled_closed n = \<lparr>settled = True, message_listener = False, close_listener = False,
     hs_posted = [], hs_cleanups = n, hs_resolved = Some False\<rparr>"

text \<open>What the handshake has become after the first settling event.\<close>

definition handshake_outcome ::
  "string \<Rightarrow> init_message \<Rightarrow> session_event option \<Rightarrow> handshake_state" where
  "handshake_outcome dO init first =
     (case first of
        None \<Rightarrow> waitForDialogReady_start
      | Some ev \<Rightarrow>
          if is_ready_signal dO ev then settled_ready dO init
          else if is_close_signal dO ev then settled_closed 1
          else settled_closed 0)"

section \<open>A session and the promise that waits for its dialog to close\<close>

text \<open>
  A promise as the platform has it: it keeps the value its resolve function is first
  called with, and a later call of that function has no effect on it. The model
  also counts the calls.
\<close>

record 'a promise =
  resolve_calls :: nat
  settled_with :: "'a option"

definition new_promise :: "'a promise" where
  "new_promise = \<lparr>resolve_calls = 0, settled_with = None\<rparr>"

definition call_resolve :: "'a \<Rightarrow> 'a promise \<Rightarrow> 'a promise" where
  "call_resolve v p =
     \<lparr>resolve_calls = Suc (resolve_calls p),
      settled_with = (case settled_with p of None \<Rightarrow> Some v | Some w \<Rightarrow> Some w)\<rparr>"

text \<open>
  One \<^verbatim>\<open>waitForDialogClose\<close> call on a session: the document, how many of the close
  events the dialog has raised were delivered so far, whether the call's message
  listener and its close listener are registered, how often the call has invoked the
  session's \<^verbatim>\<open>cleanup\<close>, and its promise.
\<close>

record close_wait =
  cw_document :: dom_state
  cw_close_delivered :: nat
  cw_message_listener :: bool
  cw_close_listener :: bool
  cw_cleanup_calls :: nat
  cw_promise :: "unit promise"

definition waitForDialogClose_start :: "dom_state \<Rightarrow> close_wait" where
  "waitForDialogClose_start d =
     \<lparr>cw_document = d, cw_close_delivered = 0, cw_message_listener = True,
      cw_close_listener = True, cw_cleanup_calls = 0, cw_promise = new_promise\<rparr>"

text \<open>What the effects of the call's message listener do to that state.\<close>

fun perform :: "close_wait \<Rightarrow> unit effect \<Rightarrow> close_wait" where
  "perform w RemoveMessageListener = w\<lparr>cw_message_listener := False\<rparr>"
| "perform w Cleanup =
     w\<lparr>cw_document := cleanup (cw_document w), cw_cleanup_calls := Suc (cw_cleanup_calls w)\<rparr>"
| "perform w (Resolve v) = w\<lparr>cw_promise := call_resolve v (cw_promise w)\<rparr>"
| "perform w _ = w"

text \<open>
  \<^verbatim>\<open>handleClose\<close> of \<^verbatim>\<open>waitForDialogClose\<close>: it removes both listeners, calls
  \<^verbatim>\<open>cleanup\<close> and resolves.
\<close>

definition waitForDialogClose_handleClose :: "close_wait \<Rightarrow> close_wait" where
  "waitForDialogClose_handleClose w =
     (let w1 = w\<lparr>cw_message_listener := False\<rparr>;
          w2 = w1\<lparr>cw_close_listener := False\<rparr>;
          w3 = w2\<lparr>cw_document := cleanup (cw_document w2),
                  cw_cleanup_calls := Suc (cw_cleanup_calls w2)\<rparr>
      in w3\<lparr>cw_promise := call_resolve () (cw_promise w3)\<rparr>)"

text \<open>
  What can happen to a session while the call waits: an event is delivered (a message
  on the window, or a close event that the dialog has raised and that is still
  queued), one of the triggers of \<^verbatim>\<open>createModalDialog\<close> fires, or the user agent
  closes the modal dialog on a close request of its own, which queues a close event
  and calls nothing of the session.
\<close>

datatype session_input = Event session_event | Trigger trigger | CloseRequest

fun close_wait_step :: "string \<Rightarrow> close_wait \<Rightarrow> session_input \<Rightarrow> close_wait" where
  "close_wait_step dialogOrigin w (Event (Message event)) =
     (if cw_message_listener w
      then foldl perform w (waitForDialogClose_handleMessage dialogOrigin event)
      else w)"
| "close_wait_step dialogOrigin w (Event NativeClose) =
     (if cw_close_delivered w < close_events_raised (cw_document w)
      then (let w1 = w\<lparr>cw_close_delivered := Suc (cw_close_delivered w)\<rparr>
            in if cw_close_listener w1 then waitForDialogClose_handleClose w1 else w1)
      else w)"
| "close_wait_step dialogOrigin w (Trigger t) = w\<lparr>cw_document := fire (cw_document w) t\<rparr>"
| "close_wait_step dialogOrigin w CloseRequest = w\<lparr>cw_document := dialog_close (cw_document w)\<rparr>"

definition waitForDialogClose_run :: "string \<Rightarrow> dom_state \<Rightarrow> session_input list \<Rightarrow> close_wait" where
  "waitForDialogClose_run dialogOrigin d inputs =
     foldl (close_wait_step dialogOrigin) (waitForDialogClose_start d) inputs"

text \<open>
  The three stages of such a call on a freshly created dialog: waiting; resolved by a
  close message, with the close listener still registered; resolved, with both
  listeners removed.
\<close>

definition fresh_dialog :: dom_state where
  "fresh_dialog = \<lparr>modal_message_listener = True, keydown_listener = True, dialog_open = True,
                   dialog_attached = True, close_events_raised = 0\<rparr>"

section \<open>The intent pipeline\<close>

subsection \<open>Options, requests and responses\<close>

datatype closeOn_status = Claimed | Preconfirmed | Filled | Completed

record developer_signed_intent =
  ds_developerId :: "string option"
  ds_merchantId :: "string option"
  ds_targetChain :: int
  ds_calls :: "intent_call list"
  ds_username :: "string option"
  ds_accountAddress :: "string option"
  ds_nonce :: string
  ds_expiresAt :: int
  ds_signature :: string

text \<open>
  The options of \<^verbatim>\<open>sendIntent\<close>. A \<open>targetChain\<close> of \<open>None\<close> is one that is \<^verbatim>\<open>undefined\<close> or
  \<^verbatim>\<open>NaN\<close>; the call treats both, and 0, alike.
\<close>

record send_intent_options =
  o_username :: "string option"
  o_targetChain :: "int option"
  o_calls :: "intent_call list option"
  o_tokenRequests :: "(string \<times> int) list option"
  o_sourceAssets :: "string list option"
  o_sourceChainId :: "int option"
  o_closeOn :: "closeOn_status option"
  o_signedIntent :: "developer_signed_intent option"
  o_waitForHash :: "bool option"
  o_hashTimeoutMs :: "int option"
  o_hashIntervalMs :: "int option"

record send_intent_result =
  r_success :: bool
  r_intentId :: string
  r_status :: string
  r_transactionHash :: "string option"
  r_operationId :: "string option"
  r_error :: "error_info option"

record direct_body =
  db_username :: "string option"
  db_targetChain :: "int option"
  db_calls :: "intent_call list option"
  db_tokenRequests :: "(string \<times> string) list option"
  db_sourceAssets :: "string list option"
  db_sourceChainId :: "int option"
  db_clientId :: "string option"

text \<open>The body of the prepare request: a signed intent as it is, or the caller's raw fields.\<close>

datatype request_body = SignedBody developer_signed_intent | DirectBody direct_body

record execute_body =
  eb_intentOp :: string
  eb_userId :: string
  eb_targetChain :: int
  eb_calls :: string
  eb_expiresAt :: string
  eb_signature :: "string option"
  eb_passkey :: "string option"

record execute_response =
  ex_success :: bool
  ex_intentId :: string
  ex_operationId :: "string option"
  ex_status :: string
  ex_transactionHash :: "string option"
  ex_error :: "error_info option"

record status_response =
  sr_status :: string
  sr_transactionHash :: "string option"

text \<open>How an asynchronous call ends: it returns, it throws, or its promise stays pending.\<close>

datatype 'a completion = Returns 'a | Throws string | NeverSettles

text \<open>
  What the outside world does during one \<^verbatim>\<open>sendIntent\<close> call: the answers of the
  prepare endpoint (to the first request and to the n-th refresh), of the execute
  endpoint, of the status endpoint at each polling attempt and at each iteration of
  the hash wait before its deadline; the events delivered while the handshake, the
  signing waiter and the close waiter are listening; and the message text the engine
  gives to a \<^verbatim>\<open>TypeError\<close>.
\<close>

record intent_env =
  e_prepare :: "request_body \<Rightarrow> prepare_response prepare_outcome"
  e_refresh :: "nat \<Rightarrow> prepare_response fetch_outcome"
  e_handshake_events :: "session_event list"
  e_signing_messages :: "message_event list"
  e_execute :: "execute_body \<Rightarrow> execute_response fetch_outcome"
  e_status :: "nat \<Rightarrow> status_response fetch_outcome"
  e_close_events :: "session_event list"
  e_hash_polls :: "status_response fetch_outcome list"
  e_typeError :: "type_error \<Rightarrow> string"

text \<open>
  The outcome of a run: the local storage after the writes of \<^verbatim>\<open>sendIntent\<close>'s own
  statements, the messages the call and its listeners posted into the frame, and how
  the call ended. While a dialog is open, the listener that \<^verbatim>\<open>createModalDialog\<close>
  registers removes the key \<^verbatim>\<open>1auth-user\<close> on a guarded \<^verbatim>\<open>PASSKEY_DISCONNECT\<close> message;
  that write is the effect \<open>RemoveStoredUser\<close> of \<open>createModalDialog_handleMessage\<close> and is
  not part of \<open>run_storage\<close>.
\<close>

record intent_run =
  run_storage :: storage
  run_posted :: "outbound list"
  run_result :: "send_intent_result completion"

subsection \<open>Validation and the prepare request\<close>

definition failed_result :: "string \<Rightarrow> string \<Rightarrow> send_intent_result" where
  "failed_result c m =
     \<lparr>r_success = False, r_intentId = '''', r_status = ''failed'', r_transactionHash = None,
      r_operationId = None, r_error = Some \<lparr>err_code = c, err_message = JStr m\<rparr>\<rparr>"

text \<open>The same result with a message that need not be a string.\<close>

definition failed_with :: "string \<Rightarrow> jsval \<Rightarrow> send_intent_result" where
  "failed_with c m =
     \<lparr>r_success = False, r_intentId = '''', r_status = ''failed'', r_transactionHash = None,
      r_operationId = None, r_error = Some \<lparr>err_code = c, err_message = m\<rparr>\<rparr>"

text \<open>
  \<^verbatim>\<open>{...options.signedIntent, merchantId: merchantId || developerId}\<close>
\<close>

definition normalize_signedIntent :: "developer_signed_intent \<Rightarrow> developer_signed_intent" where
  "normalize_signedIntent si = si\<lparr>ds_merchantId := or_else (ds_merchantId si) (ds_developerId si)\<rparr>"

definition resolved_username :: "send_intent_options \<Rightarrow> string option" where
  "resolved_username options =
     (case o_signedIntent options of
        Some si \<Rightarrow> or_else (ds_username si) (o_username options)
      | None \<Rightarrow> o_username options)"

text \<open>A number is falsy when it is 0; an array is truthy even when empty.\<close>

definition resolved_targetChain :: "send_intent_options \<Rightarrow> int option" where
  "resolved_targetChain options =
     (case o_signedIntent options of
        Some si \<Rightarrow> if ds_targetChain si \<noteq> 0 then Some (ds_targetChain si) else o_targetChain options
      | None \<Rightarrow> o_targetChain options)"

definition resolved_calls :: "send_intent_options \<Rightarrow> intent_call list option" where
  "resolved_calls options =
     (case o_signedIntent options of
        Some si \<Rightarrow> Some (ds_calls si)
      | None \<Rightarrow> o_calls options)"

text \<open>The three local checks; \<open>Some\<close> is the result returned without reaching the network.\<close>

definition sendIntent_validate :: "send_intent_options \<Rightarrow> send_intent_result option" where
  "sendIntent_validate options =
     (let signedIntent = map_option normalize_signedIntent (o_signedIntent options) in
      if (case signedIntent of Some si \<Rightarrow> \<not> truthy (ds_merchantId si) | None \<Rightarrow> False)
        then Some (failed_result ''INVALID_OPTIONS'' ''Signed intent requires developerId (clientId)'')
      else if \<not> truthy (resolved_username options)
              \<and> \<not> (case signedIntent of Some si \<Rightarrow> truthy (ds_accountAddress si) | None \<Rightarrow> False)
        then Some (failed_result ''INVALID_OPTIONS''
               ''Either username, accountAddress, or signedIntent with user identifier is required'')
      else if (case resolved_targetChain options of None \<Rightarrow> True | Some c \<Rightarrow> c = 0)
              \<or> (case resolved_calls options of None \<Rightarrow> True | Some cs \<Rightarrow> length cs = 0)
        then Some (failed_result ''INVALID_OPTIONS''
               ''targetChain and calls are required (either directly or via signedIntent)'')
      else None)"

definition serializedTokenRequests ::
  "send_intent_options \<Rightarrow> (string \<times> string) list option" where
  "serializedTokenRequests options =
     map_option (map (\<lambda>(token, amount). (token, show_int amount))) (o_tokenRequests options)"

definition sendIntent_requestBody :: "client_config \<Rightarrow> send_intent_options \<Rightarrow> request_body" where
  "sendIntent_requestBody config options =
     (case o_signedIntent options of
        Some si \<Rightarrow> SignedBody (normalize_signedIntent si)
      | None \<Rightarrow>
          DirectBody
            \<lparr>db_username = o_username options,
             db_targetChain = o_targetChain options,
             db_calls = o_calls options,
             db_tokenRequests = serializedTokenRequests options,
             db_sourceAssets = o_sourceAssets options,
             db_sourceChainId = o_sourceChainId options,
             db_clientId = (if truthy (clientId config) then clientId config else None)\<rparr>)"

subsection \<open>Polling for completion\<close>

text \<open>The table \<^verbatim>\<open>successStatuses\<close>, and \<^verbatim>\<open>options.closeOn || "preconfirmed"\<close>.\<close>

fun successStatuses :: "closeOn_status \<Rightarrow> string list" where
  "successStatuses Claimed = [''claimed'', ''preconfirmed'', ''filled'', ''completed'']"
| "successStatuses Preconfirmed = [''preconfirmed'', ''filled'', ''completed'']"
| "successStatuses Filled = [''filled'', ''completed'']"
| "successStatuses Completed = [''completed'']"

definition closeOn_of :: "send_intent_options \<Rightarrow> closeOn_status" where
  "closeOn_of options = (case o_closeOn options of Some c \<Rightarrow> c | None \<Rightarrow> Preconfirmed)"

definition isSuccessStatus :: "send_intent_options \<Rightarrow> string \<Rightarrow> bool" where
  "isSuccessStatus options st = (st \<in> set (successStatuses (closeOn_of options)))"

record poll_state =
  finalStatus :: string
  finalTxHash :: "string option"
  lastStatus :: string
  sent :: "outbound list"

definition maxAttempts :: nat where
  "maxAttempts = 120"

text \<open>
  The \<^verbatim>\<open>for\<close> loop over polling attempts. A response that is not OK and a fetch that
  throws leave the state as it is; both lead to the next attempt.
\<close>

function poll_loop ::
  "(nat \<Rightarrow> status_response fetch_outcome) \<Rightarrow> send_intent_options \<Rightarrow> nat \<Rightarrow> poll_state
     \<Rightarrow> poll_state" where
  "poll_loop status options attempt s =
     (if attempt < maxAttempts then
        (case status attempt of
           Ok statusResult \<Rightarrow>
             (let s1 = s\<lparr>finalStatus := sr_status statusResult,
                          finalTxHash := sr_transactionHash statusResult\<rparr>;
                  s2 = (if finalStatus s1 \<noteq> lastStatus s1
                        then s1\<lparr>sent := sent s1 @ [TRANSACTION_STATUS (finalStatus s1) (finalTxHash s1)],
                               lastStatus := finalStatus s1\<rparr>
                        else s1);
                  isTerminal = (finalStatus s2 = ''failed'' \<or> finalStatus s2 = ''expired'');
                  isSuccess = isSuccessStatus options (finalStatus s2)
              in if isTerminal \<or> isSuccess then s2
                 else poll_loop status options (Suc attempt) s2)
         | NotOk _ \<Rightarrow> poll_loop status options (Suc attempt) s
         | FetchThrew _ \<Rightarrow> poll_loop status options (Suc attempt) s)
      else s)"
  by pat_completeness auto
termination
  by (relation "measure (\<lambda>(status, options, attempt, s). maxAttempts - attempt)") auto

declare poll_loop.simps [simp del]

text \<open>
  \<^verbatim>\<open>waitForTransactionHash\<close> over the answers it gets before its deadline: the first
  populated hash ends it, as does a failed or expired status; running out of answers
  is reaching the deadline.
\<close>

fun waitForTransactionHash :: "status_response fetch_outcome list \<Rightarrow> string option" where
  "waitForTransactionHash [] = None"
| "waitForTransactionHash (Ok d # rest) =
     (if truthy (sr_transactionHash d) then sr_transactionHash d
      else if sr_status d = ''failed'' \<or> sr_status d = ''expired'' then None
      else waitForTransactionHash rest)"
| "waitForTransactionHash (_ # rest) = waitForTransactionHash rest"

subsection \<open>From the execute response to the returned result\<close>

text \<open>
  Step 6: the status and hash of the execute response, replaced by what the polling
  loop observes when the execute response says \<open>pending\<close>.
\<close>

definition sendIntent_poll ::
  "intent_env \<Rightarrow> send_intent_options \<Rightarrow> execute_response \<Rightarrow> poll_state" where
  "sendIntent_poll env options executeResponse =
     (let s0 = \<lparr>finalStatus = ex_status executeResponse,
                finalTxHash = ex_transactionHash executeResponse,
                lastStatus = ''pending'', sent = []\<rparr>
      in if finalStatus s0 = ''pending''
         then poll_loop (e_status env) options 0 (s0\<lparr>sent := [TRANSACTION_STATUS ''pending'' None]\<rparr>)
         else s0)"

text \<open>
  Step 7 and the optional hash wait: the final status shown in the dialog, the wait for
  the dialog to close, and the returned result. The outcome is what was posted into
  the frame and how the call ends.
\<close>

definition sendIntent_settle ::
  "intent_env \<Rightarrow> string \<Rightarrow> send_intent_options \<Rightarrow> execute_response
     \<Rightarrow> outbound list \<times> send_intent_result completion" where
  "sendIntent_settle env dialogOrigin options executeResponse =
     (let s = sendIntent_poll env options executeResponse;
          success = isSuccessStatus options (finalStatus s);
          displayStatus = (if success then ''confirmed'' else finalStatus s);
          posted = sent s @ [TRANSACTION_STATUS displayStatus (finalTxHash s)]
      in if \<not> waitForDialogClose dialogOrigin (e_close_events env) then (posted, NeverSettles)
         else if o_waitForHash options = Some True \<and> \<not> truthy (finalTxHash s) then
           (let hash = waitForTransactionHash (e_hash_polls env) in
            if truthy hash then
              (posted,
               Returns \<lparr>r_success = success, r_intentId = ex_intentId executeResponse,
                        r_status = ''completed'', r_transactionHash = hash,
                        r_operationId = ex_operationId executeResponse,
                        r_error = ex_error executeResponse\<rparr>)
            else
              (posted,
               Returns \<lparr>r_success = False, r_intentId = ex_intentId executeResponse,
                        r_status = ''failed'', r_transactionHash = finalTxHash s,
                        r_operationId = ex_operationId executeResponse,
                        r_error = Some \<lparr>err_code = ''HASH_TIMEOUT'',
                                        err_message = JStr ''Timed out waiting for transaction hash''\<rparr>\<rparr>))
         else
           (posted,
            Returns \<lparr>r_success = success, r_intentId = ex_intentId executeResponse,
                     r_status = finalStatus s, r_transactionHash = finalTxHash s,
                     r_operationId = ex_operationId executeResponse,
                     r_error = ex_error executeResponse\<rparr>))"

text \<open>
  Step 5: the dialog has executed the intent itself and reports an intent id, or the
  SDK calls the execute endpoint with the signature. A failure of that call is shown
  in the dialog and returned once the dialog is closed.
\<close>

definition sendIntent_execute ::
  "intent_env \<Rightarrow> string \<Rightarrow> send_intent_options \<Rightarrow> prepare_response \<Rightarrow> signing_result
     \<Rightarrow> outbound list \<times> send_intent_result completion" where
  "sendIntent_execute env dialogOrigin options prepareResponse signingResult =
     (if truthy (sg_intentId signingResult) then
        sendIntent_settle env dialogOrigin options
          \<lparr>ex_success = True, ex_intentId = the (sg_intentId signingResult),
           ex_operationId = None, ex_status = ''pending'', ex_transactionHash = None,
           ex_error = None\<rparr>
      else
        (case e_execute env
                \<lparr>eb_intentOp = pr_intentOp prepareResponse, eb_userId = pr_userId prepareResponse,
                 eb_targetChain = pr_targetChain prepareResponse, eb_calls = pr_calls prepareResponse,
                 eb_expiresAt = pr_expiresAt prepareResponse,
                 eb_signature = sg_signature signingResult,
                 eb_passkey = sg_passkey signingResult\<rparr> of
           NotOk err \<Rightarrow>
             ([TRANSACTION_STATUS ''failed'' None],
              if waitForDialogClose dialogOrigin (e_close_events env)
              then Returns (failed_result ''EXECUTE_FAILED'' (or_default err ''Failed to execute intent''))
              else NeverSettles)
         | FetchThrew m \<Rightarrow>
             ([TRANSACTION_STATUS ''failed'' None],
              if waitForDialogClose dialogOrigin (e_close_events env)
              then Returns (failed_result ''NETWORK_ERROR'' m)
              else NeverSettles)
         | Ok executeResponse \<Rightarrow> sendIntent_settle env dialogOrigin options executeResponse))"

subsection \<open>The whole call\<close>

text \<open>The refresh callback that \<^verbatim>\<open>sendIntent\<close> passes to the signing waiter.\<close>

definition sendIntent_onRefresh ::
  "intent_env \<Rightarrow> nat \<times> prepare_response \<Rightarrow> (nat \<times> prepare_response) \<times> prepare_response option" where
  "sendIntent_onRefresh env s =
     (case e_refresh env (fst s) of
        Ok refreshedData \<Rightarrow> ((Suc (fst s), refreshedData), Some refreshedData)
      | NotOk _ \<Rightarrow> ((Suc (fst s), snd s), None)
      | FetchThrew _ \<Rightarrow> ((Suc (fst s), snd s), None))"

text \<open>Steps 2 to 4: the dialog, the handshake and the signing waiter.\<close>

definition sendIntent_session ::
  "(string \<Rightarrow> string option) \<Rightarrow> client_config \<Rightarrow> intent_env \<Rightarrow> send_intent_options
     \<Rightarrow> prepare_response \<Rightarrow> outbound list \<times> send_intent_result completion" where
  "sendIntent_session URL_origin config env options prepareResponse =
     (case createModalDialog URL_origin config of
        None \<Rightarrow> ([], Throws ''Invalid URL'')
      | Some _ \<Rightarrow>
          (let dialogOrigin = getDialogOrigin URL_origin config;
               ready = waitForDialogReady dialogOrigin
                         (InitIntent \<lparr>ii_calls = the (resolved_calls options),
                                      ii_chainId = the (resolved_targetChain options),
                                      ii_username = resolved_username options,
                                      ii_tokenRequests = serializedTokenRequests options,
                                      ii_prepared = prepareResponse\<rparr>)
                         (e_handshake_events env);
               posted1 = map fst (hs_posted ready)
           in case hs_resolved ready of
                None \<Rightarrow> (posted1, NeverSettles)
              | Some False \<Rightarrow>
                  (posted1, Returns (failed_result ''USER_CANCELLED'' ''User closed the dialog''))
              | Some True \<Rightarrow>
                  (case listen (waitForSigningWithRefresh_handleMessage dialogOrigin
                                  (sendIntent_onRefresh env))
                          (0, prepareResponse) (e_signing_messages env) of
                     (s, fx) \<Rightarrow>
                       (case first_resolve fx of
                          None \<Rightarrow> (posted1 @ posted_of fx, NeverSettles)
                        | Some signingResult \<Rightarrow>
                            if \<not> sg_success signingResult then
                              (posted1 @ posted_of fx,
                               Returns \<lparr>r_success = False, r_intentId = '''', r_status = ''failed'',
                                        r_transactionHash = None, r_operationId = None,
                                        r_error = sg_error signingResult\<rparr>)
                            else
                              (case sendIntent_execute env dialogOrigin options (snd s) signingResult of
                                 (posted2, res) \<Rightarrow> (posted1 @ posted_of fx @ posted2, res))))))"

text \<open>
  The branch of \<^verbatim>\<open>sendIntent\<close> for a prepare response that is not OK. It lies inside the
  \<^verbatim>\<open>try\<close> block, so that a \<^verbatim>\<open>TypeError\<close> raised while the error message is read or
  searched is caught and reported as a network error, with the storage untouched.
  Otherwise the key \<^verbatim>\<open>1auth-user\<close> is removed when the message includes
  \<^verbatim>\<open>User not found\<close>, and the message is returned as it was read.
\<close>

definition sendIntent_prepare_failed :: "intent_env \<Rightarrow> storage \<Rightarrow> jsval \<Rightarrow> intent_run" where
  "sendIntent_prepare_failed env st errorData =
     (case error_or errorData ''Failed to prepare intent'' of
        Inl thrown \<Rightarrow>
          \<lparr>run_storage = st, run_posted = [],
           run_result = Returns (failed_result ''NETWORK_ERROR'' (e_typeError env thrown))\<rparr>
      | Inr errorMessage \<Rightarrow>
          (case js_includes errorMessage ''User not found'' of
             Inl thrown \<Rightarrow>
               \<lparr>run_storage = st, run_posted = [],
                run_result = Returns (failed_result ''NETWORK_ERROR'' (e_typeError env thrown))\<rparr>
           | Inr found \<Rightarrow>
               \<lparr>run_storage = (if found then removeItem ''1auth-user'' st else st),
                run_posted = [],
                run_result = Returns (failed_with
                   (if found then ''USER_NOT_FOUND'' else ''PREPARE_FAILED'') errorMessage)\<rparr>))"

text \<open>
  \<^verbatim>\<open>sendIntent\<close>. The parameters are the platform's URL parser, the client's
  configuration and the environment of the run.
\<close>

definition sendIntent ::
  "(string \<Rightarrow> string option) \<Rightarrow> client_config \<Rightarrow> intent_env \<Rightarrow> storage
     \<Rightarrow> send_intent_options \<Rightarrow> intent_run" where
  "sendIntent URL_origin config env st options =
     (case sendIntent_validate options of
        Some invalid \<Rightarrow> \<lparr>run_storage = st, run_posted = [], run_result = Returns invalid\<rparr>
      | None \<Rightarrow>
          (case e_prepare env (sendIntent_requestBody config options) of
             PrepareNotOk errorData \<Rightarrow> sendIntent_prepare_failed env st errorData
           | PrepareThrew m \<Rightarrow>
               \<lparr>run_storage = st, run_posted = [],
                run_result = Returns (failed_result ''NETWORK_ERROR'' m)\<rparr>
           | PrepareOk prepareResponse \<Rightarrow>
               (case sendIntent_session URL_origin config env options prepareResponse of
                  (posted, res) \<Rightarrow>
                    \<lparr>run_storage = st, run_posted = posted, run_result = res\<rparr>)))"

text \<open>
  The execute responses the last steps can hold: one the execute endpoint answered with,
  or the one \<^verbatim>\<open>sendIntent\<close> makes up for an intent the dialog has executed itself
  (status \<open>pending\<close>, no hash).
\<close>

definition from_execute :: "intent_env \<Rightarrow> execute_response \<Rightarrow> bool" where
  "from_execute env ex =
     ((\<exists>body. e_execute env body = Ok ex) \<or>
      (ex_status ex = ''pending'' \<and> ex_transactionHash ex = None))"

section \<open>Batch intents\<close>

record batch_item_result =
  bi_index :: nat
  bi_success :: bool
  bi_intentId :: string
  bi_status :: string
  bi_error :: "error_info option"

record batch_result =
  b_success :: bool
  b_results :: "batch_item_result list"
  successCount :: nat
  failureCount :: nat

text \<open>The result returned on every path that gives up before per-intent results exist.\<close>

definition empty_batch_result :: batch_result where
  "empty_batch_result =
     \<lparr>b_success = False, b_results = [], successCount = 0, failureCount = 0\<rparr>"

text \<open>The \<^verbatim>\<open>rawResults.map\<close> callback of \<^verbatim>\<open>sendBatchIntent\<close>.\<close>

definition map_raw_result :: "raw_batch_result \<Rightarrow> batch_item_result" where
  "map_raw_result r =
     \<lparr>bi_index = rb_index r,
      bi_success = (case rb_success r of Some b \<Rightarrow> b | None \<Rightarrow> rb_status r \<noteq> ''FAILED''),
      bi_intentId = or_default (or_else (rb_intentId r) (rb_operationId r)) '''',
      bi_status = (if rb_status r = ''FAILED'' then ''failed'' else ''pending''),
      bi_error = (if truthy (rb_error r)
                  then Some \<lparr>err_code = ''EXECUTE_FAILED'', err_message = JStr (the (rb_error r))\<rparr>
                  else None)\<rparr>"

text \<open>The aggregation of the mapped results into the value passed to \<^verbatim>\<open>resolve\<close>.\<close>

definition aggregate_batch :: "raw_batch_result list \<Rightarrow> batch_result" where
  "aggregate_batch rawResults =
     (let results = map map_raw_result rawResults;
          successCount = length (filter bi_success results)
      in \<lparr>b_success = (successCount = length results),
          b_results = results,
          successCount = successCount,
          failureCount = length results - successCount\<rparr>)"

text \<open>
  The message listener that \<^verbatim>\<open>sendBatchIntent\<close> installs after the handshake. Its
  state is the number of refresh requests served so far and the variable
  \<^verbatim>\<open>prepareResponse\<close>; \<open>refresh\<close> gives the outcome of the n-th \<^verbatim>\<open>batch-prepare\<close> call
  made for a refresh. A signing result falls through to the close test, which its
  type fails.
\<close>

definition batch_handleMessage ::
  "string \<Rightarrow> (nat \<Rightarrow> batch_prepare_response fetch_outcome)
     \<Rightarrow> nat \<times> batch_prepare_response \<Rightarrow> message_event
     \<Rightarrow> (nat \<times> batch_prepare_response) \<times> batch_result effect list" where
  "batch_handleMessage dialogOrigin refresh s event =
     (if origin event \<noteq> dialogOrigin then (s, [])
      else let message = data event in
        if mtype message = Some ''PASSKEY_REFRESH_QUOTE'' then
          (case refresh (fst s) of
             Ok refreshed \<Rightarrow>
               ((Suc (fst s), refreshed),
                [PostMessage (PASSKEY_REFRESH_COMPLETE_BATCH refreshed) dialogOrigin])
           | NotOk _ \<Rightarrow>
               ((Suc (fst s), snd s),
                [PostMessage (PASSKEY_REFRESH_ERROR ''Failed to refresh batch quotes'') dialogOrigin])
           | FetchThrew _ \<Rightarrow>
               ((Suc (fst s), snd s),
                [PostMessage (PASSKEY_REFRESH_ERROR ''Failed to refresh batch quotes'') dialogOrigin]))
        else
          (s,
           (if mtype message = Some ''PASSKEY_SIGNING_RESULT'' then
              RemoveMessageListener #
              (case (msuccess message, d_batchResults message) of
                 (True, Some rawResults) \<Rightarrow> [AwaitDialogClose, Resolve (aggregate_batch rawResults)]
               | _ \<Rightarrow> [Cleanup, Resolve empty_batch_result])
            else []) @
           (if mtype message = Some ''PASSKEY_CLOSE'' then
              [RemoveMessageListener, Cleanup, Resolve empty_batch_result]
            else [])))"





section \<open>The wallet provider\<close>

subsection \<open>Untyped request parameters\<close>

text \<open>
  An unchecked cast to \<^verbatim>\<open>string\<close> (\<^verbatim>\<open>c.to as Address\<close>): the model keeps strings and
  renders every other value, which the declared types exclude, as the empty string.
\<close>

fun as_string :: "jsval \<Rightarrow> string" where
  "as_string (JStr s) = s"
| "as_string _ = []"

fun as_string_option :: "jsval \<Rightarrow> string option" where
  "as_string_option (JStr s) = Some s"
| "as_string_option _ = None"

text \<open>
  \<^verbatim>\<open>BigInt("0x...")\<close>: white space around the literal is trimmed (here the white space
  characters below code 256; the string starts with the prefix, so that only trailing
  white space can occur), and the digits after the prefix must be hexadecimal and at
  least one.
\<close>

definition is_white_space :: "char \<Rightarrow> bool" where
  "is_white_space c =
     (c \<in> set [CHR 0x09, CHR 0x0A, CHR 0x0B, CHR 0x0C, CHR 0x0D, CHR 0x20, CHR 0xA0])"

definition trim_end :: "string \<Rightarrow> string" where
  "trim_end s = rev (dropWhile is_white_space (rev s))"

definition hex_value :: "char \<Rightarrow> nat option" where
  "hex_value c = map_of (zip ''0123456789abcdef'' [0 ..< 16]) (lower_char c)"

fun parse_hex_digits :: "nat \<Rightarrow> string \<Rightarrow> nat option" where
  "parse_hex_digits acc [] = Some acc"
| "parse_hex_digits acc (c # cs) =
     (case hex_value c of None \<Rightarrow> None | Some v \<Rightarrow> parse_hex_digits (16 * acc + v) cs)"

definition BigInt_hex :: "string \<Rightarrow> nat option" where
  "BigInt_hex s =
     (if trim_end (drop 2 s) = [] then None else parse_hex_digits 0 (trim_end (drop 2 s)))"

text \<open>
  \<^verbatim>\<open>normalizeValue\<close>. \<^verbatim>\<open>Math.trunc\<close> is the identity on the integral numbers the model
  has, and \<^verbatim>\<open>NaN\<close> prints as itself. A number prints as its decimal digits when its
  magnitude is below \<open>10\<^sup>2\<^sup>1\<close> and in exponent form from there on; the exponent form is
  the parameter \<open>exponent_form\<close>.
\<close>

fun normalizeValue :: "(int \<Rightarrow> string) \<Rightarrow> jsval \<Rightarrow> string option" where
  "normalizeValue exponent_form JUndefined = None"
| "normalizeValue exponent_form JNull = None"
| "normalizeValue exponent_form (JBigInt n) = Some (show_int n)"
| "normalizeValue exponent_form (JNum n) =
     Some (if \<bar>n\<bar> < 10 ^ 21 then show_int n else exponent_form n)"
| "normalizeValue exponent_form JNaN = Some ''NaN''"
| "normalizeValue exponent_form (JStr v) =
     (if prefix ''0x'' v
      then (case BigInt_hex v of Some n \<Rightarrow> Some (show_int (int n)) | None \<Rightarrow> Some ''0'')
      else Some v)"
| "normalizeValue exponent_form _ = None"

text \<open>
  The callback of \<^verbatim>\<open>calls.map\<close> in \<^verbatim>\<open>normalizeCalls\<close>. Reading a property of
  \<^verbatim>\<open>null\<close> or \<^verbatim>\<open>undefined\<close> throws.
\<close>

definition normalizeCall :: "(int \<Rightarrow> string) \<Rightarrow> jsval \<Rightarrow> string + intent_call" where
  "normalizeCall exponent_form c =
     (if c = JUndefined \<or> c = JNull then Inl ''TypeError''
      else Inr \<lparr>c_to = as_string (get_prop c ''to''),
                c_data = Some (if js_truthy (get_prop c ''data'') then as_string (get_prop c ''data'') else ''0x''),
                c_value = Some (or_default (normalizeValue exponent_form (get_prop c ''value'')) ''0''),
                c_label = as_string_option (get_prop c ''label''),
                c_sublabel = as_string_option (get_prop c ''sublabel'')\<rparr>)"

fun normalizeCalls :: "(int \<Rightarrow> string) \<Rightarrow> jsval list \<Rightarrow> string + intent_call list" where
  "normalizeCalls exponent_form [] = Inr []"
| "normalizeCalls exponent_form (c # cs) =
     (case normalizeCall exponent_form c of
        Inl e \<Rightarrow> Inl e
      | Inr n \<Rightarrow> (case normalizeCalls exponent_form cs of
                     Inl e \<Rightarrow> Inl e
                   | Inr ns \<Rightarrow> Inr (n # ns)))"

text \<open>
  \<^verbatim>\<open>parseChainId\<close>: \<open>Some None\<close> is \<^verbatim>\<open>NaN\<close>, \<open>None\<close> is \<^verbatim>\<open>undefined\<close>. The platform's
  \<^verbatim>\<open>Number.parseInt(value, 16)\<close> and \<^verbatim>\<open>Number(value)\<close> are parameters; both give \<open>None\<close>
  for \<^verbatim>\<open>NaN\<close>, and \<^verbatim>\<open>Number\<close> also for an infinite value.
\<close>

fun parseChainId ::
  "(string \<Rightarrow> int option) \<Rightarrow> (string \<Rightarrow> int option) \<Rightarrow> jsval \<Rightarrow> int option option" where
  "parseChainId parseInt16 Number_finite (JNum n) = Some (Some n)"
| "parseChainId parseInt16 Number_finite JNaN = Some None"
| "parseChainId parseInt16 Number_finite (JStr v) =
     (if prefix ''0x'' v then Some (parseInt16 v)
      else (case Number_finite v of Some n \<Rightarrow> Some (Some n) | None \<Rightarrow> None))"
| "parseChainId parseInt16 Number_finite _ = None"

subsection \<open>The stored user\<close>

record stored_user =
  su_username :: string
  su_address :: string

definition DEFAULT_STORAGE_KEY :: string where
  "DEFAULT_STORAGE_KEY = ''1auth-user''"

record provider_options =
  po_chainId :: int
  po_storageKey :: "string option"
  po_waitForHash :: "bool option"
  po_hashTimeoutMs :: "int option"
  po_hashIntervalMs :: "int option"

definition storageKey :: "provider_options \<Rightarrow> string" where
  "storageKey options = or_default (po_storageKey options) DEFAULT_STORAGE_KEY"

text \<open>
  \<^verbatim>\<open>getStoredUser\<close>, in a browser. The platform's \<^verbatim>\<open>JSON.parse\<close> is a parameter, \<open>None\<close>
  where it throws.
\<close>

definition getStoredUser ::
  "(string \<Rightarrow> jsval option) \<Rightarrow> provider_options \<Rightarrow> storage \<Rightarrow> stored_user option" where
  "getStoredUser JSON_parse options st =
     (case getItem (storageKey options) st of
        None \<Rightarrow> None
      | Some raw \<Rightarrow>
          if raw = [] then None
          else (case JSON_parse raw of
                  None \<Rightarrow> None
                | Some parsed \<Rightarrow>
                    if \<not> js_truthy (get_prop parsed ''username'') \<or> \<not> js_truthy (get_prop parsed ''address'')
                    then None
                    else Some \<lparr>su_username = as_string (get_prop parsed ''username''),
                               su_address = as_string (get_prop parsed ''address'')\<rparr>))"

definition setStoredUser :: "provider_options \<Rightarrow> stored_user \<Rightarrow> storage \<Rightarrow> storage" where
  "setStoredUser options user st =
     setItem (storageKey options)
       (JSON_stringify (json_object [(''username'', Some (JString (su_username user))),
                                     (''address'', Some (JString (su_address user)))])) st"

definition clearStoredUser :: "provider_options \<Rightarrow> storage \<Rightarrow> storage" where
  "clearStoredUser options st = removeItem (storageKey options) st"

subsection \<open>Connecting\<close>

datatype provider_event =
    AccountsChanged "string list"
  | ConnectEvent string
  | DisconnectEvent
  | ChainChanged string

fun hex_digits :: "nat \<Rightarrow> string" where
  "hex_digits n = (if n < 16 then [hex_char n] else hex_digits (n div 16) @ [hex_char (n mod 16)])"

text \<open>\<^verbatim>\<open>numberToHex\<close> of a chain id (a non-negative integer).\<close>

definition numberToHex :: "int \<Rightarrow> string" where
  "numberToHex n = ''0x'' @ hex_digits (nat n)"

text \<open>
  The client as the provider sees it: the outcomes of the two modals, the answer of the
  account endpoint, and \<^verbatim>\<open>client.sendIntent\<close> as a function of the local storage and
  the options it is called with. The optional \<^verbatim>\<open>signIntent\<close> callback of the provider's
  options is here too; \<open>Inl\<close> is an error it throws. \<open>pe_String\<close> is the platform's
  conversion of a value to the message of \<^verbatim>\<open>new Error(value)\<close>, used for values that are
  not strings, and \<open>pe_exponent_form\<close> its printing of a number in exponent form.
\<close>

record signer_params =
  sn_username :: string
  sn_accountAddress :: string
  sn_targetChain :: "int option"
  sn_calls :: "intent_call list"

record provider_env =
  pe_JSON_parse :: "string \<Rightarrow> jsval option"
  pe_parseInt16 :: "string \<Rightarrow> int option"
  pe_Number_finite :: "string \<Rightarrow> int option"
  pe_connectWithModal :: "connect_result completion"
  pe_authWithModal :: "auth_result completion"
  pe_account :: "string \<Rightarrow> string fetch_outcome"
  pe_sendIntent :: "storage \<Rightarrow> send_intent_options \<Rightarrow> storage \<times> send_intent_result completion"
  pe_signIntent :: "(signer_params \<Rightarrow> string + developer_signed_intent) option"
  pe_String :: "jsval \<Rightarrow> string"
  pe_exponent_form :: "int \<Rightarrow> string"

text \<open>The provider's mutable state: the local storage and the events emitted so far.\<close>

record provider_state =
  ps_storage :: storage
  ps_emitted :: "provider_event list"

text \<open>
  The message of \<^verbatim>\<open>new Error(error?.message || fallback)\<close>: a string is taken as it is,
  and any other truthy value is converted by the platform.
\<close>

definition error_message_or :: "(jsval \<Rightarrow> string) \<Rightarrow> error_info option \<Rightarrow> string \<Rightarrow> string" where
  "error_message_or to_string e d =
     (case e of
        None \<Rightarrow> d
      | Some err \<Rightarrow>
          if js_truthy (err_message err)
          then (case err_message err of JStr m \<Rightarrow> m | v \<Rightarrow> to_string v)
          else d)"

text \<open>\<^verbatim>\<open>resolveAccountAddress\<close>\<close>

definition resolveAccountAddress :: "provider_env \<Rightarrow> string \<Rightarrow> string completion" where
  "resolveAccountAddress env username =
     (case pe_account env username of
        FetchThrew m \<Rightarrow> Throws m
      | NotOk err \<Rightarrow> Throws (or_default err ''Failed to resolve account address'')
      | Ok address \<Rightarrow> Returns address)"

text \<open>The part of \<^verbatim>\<open>connect\<close> that follows once a username is known.\<close>

definition connect_finish ::
  "provider_env \<Rightarrow> provider_options \<Rightarrow> provider_state \<Rightarrow> string
     \<Rightarrow> provider_state \<times> string list completion" where
  "connect_finish env options s username =
     (case resolveAccountAddress env username of
        Throws m \<Rightarrow> (s, Throws m)
      | NeverSettles \<Rightarrow> (s, NeverSettles)
      | Returns address \<Rightarrow>
          (s\<lparr>ps_storage := setStoredUser options \<lparr>su_username = username, su_address = address\<rparr>
                               (ps_storage s),
             ps_emitted := ps_emitted s @ [AccountsChanged [address],
                                           ConnectEvent (numberToHex (po_chainId options))]\<rparr>,
           Returns [address]))"

definition connect ::
  "provider_env \<Rightarrow> provider_options \<Rightarrow> provider_state \<Rightarrow> provider_state \<times> string list completion" where
  "connect env options s =
     (case getStoredUser (pe_JSON_parse env) options (ps_storage s) of
        Some stored \<Rightarrow> (s, Returns [su_address stored])
      | None \<Rightarrow>
          (case pe_connectWithModal env of
             Throws m \<Rightarrow> (s, Throws m)
           | NeverSettles \<Rightarrow> (s, NeverSettles)
           | Returns connectResult \<Rightarrow>
               if cn_success connectResult \<and> truthy (cn_username connectResult)
                 then connect_finish env options s (the (cn_username connectResult))
               else if cn_action connectResult = Some ''switch'' then
                 (case pe_authWithModal env of
                    Throws m \<Rightarrow> (s, Throws m)
                  | NeverSettles \<Rightarrow> (s, NeverSettles)
                  | Returns authResult \<Rightarrow>
                      if \<not> au_success authResult \<or> \<not> truthy (au_username authResult)
                        then (s, Throws (error_message_or (pe_String env) (au_error authResult) ''Authentication failed''))
                      else connect_finish env options s (the (au_username authResult)))
               else (s, Throws (error_message_or (pe_String env) (cn_error connectResult) ''Connection cancelled''))))"

definition ensureUser ::
  "provider_env \<Rightarrow> provider_options \<Rightarrow> provider_state \<Rightarrow> provider_state \<times> stored_user completion" where
  "ensureUser env options s =
     (case getStoredUser (pe_JSON_parse env) options (ps_storage s) of
        Some stored \<Rightarrow> (s, Returns stored)
      | None \<Rightarrow>
          (case connect env options s of
             (s', Throws m) \<Rightarrow> (s', Throws m)
           | (s', NeverSettles) \<Rightarrow> (s', NeverSettles)
           | (s', Returns accounts) \<Rightarrow>
               (case (getStoredUser (pe_JSON_parse env) options (ps_storage s'), accounts) of
                  (Some u, address # _) \<Rightarrow>
                    if su_username u = [] \<or> address = []
                    then (s', Throws ''Failed to resolve user session'')
                    else (s', Returns \<lparr>su_username = su_username u, su_address = address\<rparr>)
                | _ \<Rightarrow> (s', Throws ''Failed to resolve user session''))))"

subsection \<open>Sending calls\<close>

text \<open>
  What one request did: the provider's state afterwards, the options of every
  \<^verbatim>\<open>client.sendIntent\<close> call it made, and how it ended.
\<close>

record request_run =
  rr_state :: provider_state
  rr_passed :: "send_intent_options list"
  rr_result :: "string completion"

definition payload_options :: "send_intent_options" where
  "payload_options =
     \<lparr>o_username = None, o_targetChain = None, o_calls = None, o_tokenRequests = None,
      o_sourceAssets = None, o_sourceChainId = None, o_closeOn = None, o_signedIntent = None,
      o_waitForHash = None, o_hashTimeoutMs = None, o_hashIntervalMs = None\<rparr>"

text \<open>
  \<^verbatim>\<open>resolveIntentPayload\<close>: without a signer the raw fields, with one the signed intent
  it returns.
\<close>

definition resolveIntentPayload ::
  "provider_env \<Rightarrow> signer_params \<Rightarrow> string + send_intent_options" where
  "resolveIntentPayload env payload =
     (case pe_signIntent env of
        None \<Rightarrow>
          Inr (payload_options\<lparr>o_username := Some (sn_username payload),
                                o_targetChain := sn_targetChain payload,
                                o_calls := Some (sn_calls payload)\<rparr>)
      | Some signer \<Rightarrow>
          (case signer payload of
             Inl thrown \<Rightarrow> Inl thrown
           | Inr signedIntent \<Rightarrow> Inr (payload_options\<lparr>o_signedIntent := Some signedIntent\<rparr>)))"

text \<open>
  The provider's \<^verbatim>\<open>sendIntent\<close>: it throws when the result is not a success and
  otherwise returns \<^verbatim>\<open>result.intentId\<close>.
\<close>

definition provider_sendIntent ::
  "provider_env \<Rightarrow> provider_options \<Rightarrow> provider_state \<Rightarrow> signer_params \<Rightarrow> request_run" where
  "provider_sendIntent env options s payload =
     (let waitForHash = (case po_waitForHash options of None \<Rightarrow> True | Some b \<Rightarrow> b);
          closeOn = (if waitForHash then Completed else Preconfirmed)
      in case resolveIntentPayload env payload of
           Inl thrown \<Rightarrow> \<lparr>rr_state = s, rr_passed = [], rr_result = Throws thrown\<rparr>
         | Inr intentPayload \<Rightarrow>
             (let passed = intentPayload\<lparr>o_closeOn := Some closeOn,
                                          o_waitForHash := Some waitForHash,
                                          o_hashTimeoutMs := po_hashTimeoutMs options,
                                          o_hashIntervalMs := po_hashIntervalMs options\<rparr>
              in case pe_sendIntent env (ps_storage s) passed of
                   (st', res) \<Rightarrow>
                     \<lparr>rr_state = s\<lparr>ps_storage := st'\<rparr>,
                      rr_passed = [passed],
                      rr_result =
                        (case res of
                           Throws m \<Rightarrow> Throws m
                         | NeverSettles \<Rightarrow> NeverSettles
                         | Returns result \<Rightarrow>
                             if \<not> r_success result
                             then Throws (error_message_or (pe_String env) (r_error result) ''Transaction failed'')
                             else Returns (r_intentId result))\<rparr>))"

text \<open>
  The \<^verbatim>\<open>wallet_sendCalls\<close> case of \<^verbatim>\<open>request\<close>. \<open>chainId\<close> is the provider's current
  chain. A \<^verbatim>\<open>calls\<close> property that is truthy but not an array has no \<^verbatim>\<open>map\<close> method.
\<close>

definition request_wallet_sendCalls ::
  "provider_env \<Rightarrow> provider_options \<Rightarrow> int \<Rightarrow> provider_state \<Rightarrow> jsval \<Rightarrow> request_run" where
  "request_wallet_sendCalls env options chainId s params =
     (let paramList = (case params of JArr ps \<Rightarrow> ps | _ \<Rightarrow> []);
          payload = (case paramList of p # _ \<Rightarrow> (if js_truthy p then p else JObj []) | [] \<Rightarrow> JObj [])
      in case ensureUser env options s of
           (s', Throws m) \<Rightarrow> \<lparr>rr_state = s', rr_passed = [], rr_result = Throws m\<rparr>
         | (s', NeverSettles) \<Rightarrow> \<lparr>rr_state = s', rr_passed = [], rr_result = NeverSettles\<rparr>
         | (s', Returns user) \<Rightarrow>
             (let targetChain =
                    (case parseChainId (pe_parseInt16 env) (pe_Number_finite env)
                            (get_prop payload ''chainId'') of
                       Some c \<Rightarrow> c
                     | None \<Rightarrow> Some chainId)
              in case (if js_truthy (get_prop payload ''calls'')
                       then (case get_prop payload ''calls'' of
                               JArr cs \<Rightarrow> normalizeCalls (pe_exponent_form env) cs
                             | _ \<Rightarrow> Inl ''TypeError'')
                       else Inr []) of
                   Inl thrown \<Rightarrow> \<lparr>rr_state = s', rr_passed = [], rr_result = Throws thrown\<rparr>
                 | Inr calls \<Rightarrow>
                     if length calls = 0
                     then \<lparr>rr_state = s', rr_passed = [], rr_result = Throws ''No calls provided''\<rparr>
                     else provider_sendIntent env options s'
                            \<lparr>sn_username = su_username user, sn_accountAddress = su_address user,
                             sn_targetChain = targetChain, sn_calls = calls\<rparr>))"

subsection \<open>Concrete inputs for the batch pipeline\<close>

text \<open>A message with no type and no payload.\<close>

definition no_data :: msg_data where
  "no_data = \<lparr>mtype = None, msuccess = False, merror = None, d_requestId = None,
     d_signature = None, d_passkey = None, d_signedHash = None, d_intentId = None,
     d_batchResults = None, d_username = None, d_user = None, d_accountAddress = None,
     d_autoConnected = None, d_action = None, d_url = None, m_height = [], m_width = None\<rparr>"

definition msg_of :: "string \<Rightarrow> string \<Rightarrow> message_event" where
  "msg_of org ty = \<lparr>origin = org, data = no_data\<lparr>mtype := Some ty\<rparr>\<rparr>"





subsection \<open>Concrete runs of the intent pipeline\<close>

definition URL_origin_example :: "string \<Rightarrow> string option" where
  "URL_origin_example u = (if u = ''https://d.test'' then Some ''https://d.test'' else None)"

definition client_config_example :: client_config where
  "client_config_example =
     \<lparr>providerUrl = ''https://p.test'', dialogUrl = ''https://d.test'', clientId = None\<rparr>"

definition prepared_example :: prepare_response where
  "prepared_example =
     \<lparr>pr_transaction = ''tx'', pr_challenge = ''0xc0ffee'', pr_expiresAt = ''2030-01-01'',
      pr_accountAddress = None, pr_intentOp = ''op'', pr_userId = ''u1'', pr_targetChain = 10,
      pr_calls = ''[]'', pr_originMessages = None\<rparr>"

definition call_example :: intent_call where
  "call_example =
     \<lparr>c_to = ''0x1111111111111111111111111111111111111111'', c_data = Some ''0x'',
      c_value = Some ''2'', c_label = None, c_sublabel = None\<rparr>"

definition options_example :: "closeOn_status option \<Rightarrow> bool option \<Rightarrow> send_intent_options" where
  "options_example closeOn waitForHash =
     \<lparr>o_username = Some ''alice'', o_targetChain = Some 10, o_calls = Some [call_example],
      o_tokenRequests = None, o_sourceAssets = None, o_sourceChainId = None,
      o_closeOn = closeOn, o_signedIntent = None, o_waitForHash = waitForHash,
      o_hashTimeoutMs = None, o_hashIntervalMs = None\<rparr>"

text \<open>The texts one engine gives to the two type errors.\<close>

fun engine_typeError :: "type_error \<Rightarrow> string" where
  "engine_typeError PropertyOfNullish = ''Cannot read properties of null''"
| "engine_typeError NotAFunction = ''errorMessage.includes is not a function''"

definition intent_env_example ::
  "msg_data \<Rightarrow> execute_response fetch_outcome \<Rightarrow> (nat \<Rightarrow> status_response fetch_outcome)
     \<Rightarrow> status_response fetch_outcome list \<Rightarrow> intent_env" where
  "intent_env_example signing executed statuses hashPolls =
     \<lparr>e_prepare = (\<lambda>_. PrepareOk prepared_example),
      e_refresh = (\<lambda>_. NotOk None),
      e_handshake_events = [Message (msg_of ''https://d.test'' ''PASSKEY_READY'')],
      e_signing_messages = [\<lparr>origin = ''https://d.test'', data = signing\<rparr>],
      e_execute = (\<lambda>_. executed),
      e_status = statuses,
      e_close_events = [NativeClose],
      e_hash_polls = hashPolls,
      e_typeError = engine_typeError\<rparr>"

definition dialog_executed :: msg_data where
  "dialog_executed = no_data\<lparr>mtype := Some ''PASSKEY_SIGNING_RESULT'', msuccess := True,
                              d_intentId := Some ''intent-1''\<rparr>"

definition signature_returned :: msg_data where
  "signature_returned = no_data\<lparr>mtype := Some ''PASSKEY_SIGNING_RESULT'', msuccess := True,
                                 d_signature := Some ''sig''\<rparr>"

subsection \<open>Concrete inputs for the provider\<close>

text \<open>
  The stored user of the scenario, the text the provider stores for her, and a
  \<^verbatim>\<open>JSON.parse\<close> that reads that text back.
\<close>

definition alice :: stored_user where
  "alice = \<lparr>su_username = ''alice'', su_address = ''0x1111111111111111111111111111111111111111''\<rparr>"

definition alice_record :: string where
  "alice_record =
     JSON_stringify (json_object
       [(''username'', Some (JString ''alice'')),
        (''address'', Some (JString ''0x1111111111111111111111111111111111111111''))])"

definition alice_json :: jsval where
  "alice_json = JObj [(''username'', JStr ''alice''),
                      (''address'', JStr ''0x1111111111111111111111111111111111111111'')]"

definition sendCalls_params :: jsval where
  "sendCalls_params =
     JArr [JObj [(''chainId'', JNum 10),
                 (''calls'', JArr [JObj [(''to'', JStr ''0x1111111111111111111111111111111111111111''),
                                         (''value'', JNum 2)]])]]"

definition provider_options_example :: "string option \<Rightarrow> provider_options" where
  "provider_options_example key =
     \<lparr>po_chainId = 8453, po_storageKey = key, po_waitForHash = None, po_hashTimeoutMs = None,
      po_hashIntervalMs = None\<rparr>"

definition passed_example :: send_intent_options where
  "passed_example =
     \<lparr>o_username = Some ''alice'', o_targetChain = Some 10, o_calls = Some [call_example],
      o_tokenRequests = None, o_sourceAssets = None, o_sourceChainId = None,
      o_closeOn = Some Completed, o_signedIntent = None, o_waitForHash = Some True,
      o_hashTimeoutMs = None, o_hashIntervalMs = None\<rparr>"

text \<open>A provider environment around a given client, with no custom signer.\<close>

definition provider_env_example ::
  "(storage \<Rightarrow> send_intent_options \<Rightarrow> storage \<times> send_intent_result completion) \<Rightarrow> provider_env" where
  "provider_env_example client =
     \<lparr>pe_JSON_parse = (\<lambda>raw. if raw = alice_record then Some alice_json else None),
      pe_parseInt16 = (\<lambda>_. None),
      pe_Number_finite = (\<lambda>_. None),
      pe_connectWithModal = NeverSettles,
      pe_authWithModal = NeverSettles,
      pe_account = (\<lambda>_. FetchThrew ''offline''),
      pe_sendIntent = client,
      pe_signIntent = None,
      pe_String = (\<lambda>_. ''[object Object]''),
      pe_exponent_form = (\<lambda>_. ''1e+21'')\<rparr>"

text \<open>
  A credential server that answers every prepare request with a response that is not
  OK and has the given body.
\<close>

definition prepare_not_ok_env :: "jsval \<Rightarrow> intent_env" where
  "prepare_not_ok_env errorData =
     \<lparr>e_prepare = (\<lambda>_. PrepareNotOk errorData),
      e_refresh = (\<lambda>_. NotOk None),
      e_handshake_events = [],
      e_signing_messages = [],
      e_execute = (\<lambda>_. NotOk None),
      e_status = (\<lambda>_. NotOk None),
      e_close_events = [],
      e_hash_polls = [],
      e_typeError = engine_typeError\<rparr>"

text \<open>\<^verbatim>\<open>client.sendIntent\<close> of a client in a given environment.\<close>

definition client_example ::
  "intent_env \<Rightarrow> storage \<Rightarrow> send_intent_options \<Rightarrow> storage \<times> send_intent_result completion" where
  "client_example env st options =
     (let run = sendIntent URL_origin_example client_config_example env st options
      in (run_storage run, run_result run))"

text \<open>A client whose \<^verbatim>\<open>sendIntent\<close> succeeds with an intent id and a transaction hash.\<close>

definition succeeding_client ::
  "storage \<Rightarrow> send_intent_options \<Rightarrow> storage \<times> send_intent_result completion" where
  "succeeding_client st options =
     (st, Returns \<lparr>r_success = True, r_intentId = ''intent-1'', r_status = ''completed'',
                    r_transactionHash = Some ''0xabc'', r_operationId = None, r_error = None\<rparr>)"

chapter \<open>Verified properties\<close>

section \<open>Batch results\<close>












section \<open>The canonical message\<close>

lemma lower_char_idem: "lower_char (lower_char a) = lower_char a"
  by (simp add: lower_char_def upper_letters_def lower_letters_def)

lemma same_letter_lower: "same_letter a b \<Longrightarrow> lower_char a = lower_char b"
  by (auto simp: same_letter_def lower_char_idem)

lemma same_modulo_case_lower: "same_modulo_case x y \<Longrightarrow> toLowerCase x = toLowerCase y"
  by (induction x y rule: same_modulo_case.induct) (auto simp: toLowerCase_def dest: same_letter_lower)

lemma same_modulo_case_Nil: "same_modulo_case x y \<Longrightarrow> (x = []) = (y = [])"
  by (cases x; cases y) auto

lemma absent_or_default_eq: "absent_or_default d a b \<Longrightarrow> or_default a d = or_default b d"
  by (auto simp: absent_or_default_def)

lemma absent_or_default_ci_eq:
  "absent_or_default_ci d a b \<Longrightarrow> toLowerCase (or_default a d) = toLowerCase (or_default b d)"
  by (cases a; cases b) (auto dest: same_modulo_case_lower same_modulo_case_Nil)

lemma call_variant_canonical: "call_variant c c' \<Longrightarrow> canonical_call c = canonical_call c'"
  unfolding call_variant_def canonical_call_def
  by (auto dest!: absent_or_default_eq absent_or_default_ci_eq same_modulo_case_lower)

lemma calls_variant_canonical:
  "list_all2 call_variant cs cs' \<Longrightarrow> map canonical_call cs = map canonical_call cs'"
  by (induction rule: list_all2_induct) (auto dest: call_variant_canonical)

lemma address_variant_lower:
  "address_variant a b \<Longrightarrow>
     map_option (\<lambda>a. JString (toLowerCase a)) a = map_option (\<lambda>a. JString (toLowerCase a)) b"
  by (cases a; cases b) (auto simp: address_variant_def dest: same_modulo_case_lower)

lemma address_variant_truthy: "address_variant a b \<Longrightarrow> truthy a = truthy b"
  by (cases a; cases b) (auto simp: address_variant_def dest: same_modulo_case_Nil)

lemma data_variant_message:
  "data_variant d d' \<Longrightarrow> createCanonicalMessage d = createCanonicalMessage d'"
  unfolding data_variant_def createCanonicalMessage_def
  by (auto dest!: calls_variant_canonical address_variant_lower)

lemma list_all2_Nil_iff: "list_all2 P xs ys \<Longrightarrow> (xs = []) = (ys = [])"
  by (cases xs; cases ys) auto

text \<open>
  C9: two sets of canonical-message fields that differ only in the letter casing of the
  calls' \<open>to\<close> and \<open>data\<close> and of \<open>accountAddress\<close>, and in optional call fields being absent
  on one side and equal to their defaults (\<open>0x\<close>, \<open>0\<close>, empty, empty) on the other, give the
  same canonical JSON string; so \<open>signIntent\<close>, with the same nonce, clock and key, signs
  the same message and returns the same signature (or throws the same error) for both.
\<close>

theorem C9_canonical_message_casing:
  "(data_variant d d' \<longrightarrow> createCanonicalMessage d = createCanonicalMessage d') \<and>
   (params_variant p p' \<longrightarrow>
      map_sum id si_signature (signIntent sign uuid now p cfg)
        = map_sum id si_signature (signIntent sign uuid now p' cfg))"
proof (intro conjI impI)
  assume "data_variant d d'" then show "createCanonicalMessage d = createCanonicalMessage d'"
    by (rule data_variant_message)
next
  assume pv: "params_variant p p'"
  let ?dev = "or_else (dc_developerId cfg) (dc_merchantId cfg)"
  let ?exp = "now + (case dc_expiryMs cfg of None \<Rightarrow> 5 * 60 * 1000 | Some e \<Rightarrow> e)"
  let ?D = "\<lambda>p. \<lparr>cd_merchantId = the ?dev, cd_targetChain = sp_targetChain p, cd_calls = sp_calls p,
                cd_username = sp_username p, cd_accountAddress = sp_accountAddress p,
                cd_nonce = uuid, cd_expiresAt = ?exp\<rparr>"
  from pv have "data_variant (?D p) (?D p')" by (simp add: params_variant_def data_variant_def)
  then have msg: "createCanonicalMessage (?D p) = createCanonicalMessage (?D p')"
    by (rule data_variant_message)
  from pv have t: "truthy (sp_accountAddress p) = truthy (sp_accountAddress p')"
    and n: "(sp_calls p = []) = (sp_calls p' = [])"
    and u: "sp_username p = sp_username p'" and c: "sp_targetChain p = sp_targetChain p'"
    by (auto simp: params_variant_def dest: address_variant_truthy list_all2_Nil_iff)
  show "map_sum id si_signature (signIntent sign uuid now p cfg)
        = map_sum id si_signature (signIntent sign uuid now p' cfg)"
    unfolding signIntent_def Let_def using msg t n u c
    by (auto split: sum.splits)
qed

lemma canonical_example_text:
  \<open>createCanonicalMessage canonical_example_lower =
  ''{"merchantId":"dev-1","targetChain":8453,"calls":[{"to":"0xabcdef0000000000000000000000000000000001","data":"0xa9059cbb","value":"0","label":"","sublabel":""},{"to":"0x00000000000000000000000000000000000000aa","data":"0x","value":"0","label":"Pay","sublabel":""}],"username":"alice","accountAddress":"0xabc0000000000000000000000000000000000002","nonce":"n-1","expiresAt":1700000300000}''\<close>
  by (simp add: createCanonicalMessage_def canonical_example_lower_def canonical_call_def
      json_object_def quote_json_def escape_char_def toLowerCase_def lower_char_def is_upper_def
      show_int_def digit_char_def Let_def upper_letters_def lower_letters_def)

theorem C9_canonical_message_casing_witness:
  "data_variant canonical_example_upper canonical_example_lower
   \<and> createCanonicalMessage canonical_example_upper
       = createCanonicalMessage canonical_example_lower
   \<and> params_variant params_example_upper params_example_lower
   \<and> map_sum id si_signature
         (signIntent (\<lambda>m k. Inr (k @ m)) ''n-1'' 1700000000000 params_example_upper config_example)
       = map_sum id si_signature
         (signIntent (\<lambda>m k. Inr (k @ m)) ''n-1'' 1700000000000 params_example_lower config_example)"
proof -
  have cv: "list_all2 call_variant (cd_calls canonical_example_upper) (cd_calls canonical_example_lower)"
    by (simp add: canonical_example_upper_def canonical_example_lower_def call_variant_def
        absent_or_default_def same_letter_def is_upper_def lower_char_def upper_letters_def
        lower_letters_def)
  have av: "address_variant (cd_accountAddress canonical_example_upper)
              (cd_accountAddress canonical_example_lower)"
    by (simp add: canonical_example_upper_def canonical_example_lower_def address_variant_def
        same_letter_def is_upper_def lower_char_def upper_letters_def lower_letters_def)
  have dv: "data_variant canonical_example_upper canonical_example_lower"
    using cv av
    by (simp add: data_variant_def) (simp add: canonical_example_upper_def canonical_example_lower_def)
  have pv: "params_variant params_example_upper params_example_lower"
    using cv av by (simp add: params_variant_def params_example_upper_def params_example_lower_def)
  from C9_canonical_message_casing
         [of canonical_example_upper canonical_example_lower params_example_upper
             params_example_lower "\<lambda>m k. Inr (k @ m)" "''n-1''" 1700000000000 config_example]
       dv pv
  show ?thesis by blast
qed

section \<open>The intent pipeline\<close>

lemma poll_loop_observed:
  "(finalStatus (poll_loop status options a s) = finalStatus s \<and>
    finalTxHash (poll_loop status options a s) = finalTxHash s) \<or>
   (\<exists>i<maxAttempts. \<exists>d. status i = Ok d \<and>
      finalStatus (poll_loop status options a s) = sr_status d \<and>
      finalTxHash (poll_loop status options a s) = sr_transactionHash d)"
proof (induction status options a s rule: poll_loop.induct)
  case (1 status options attempt s)
  show ?case
  proof (cases "attempt < maxAttempts")
    case False
    then show ?thesis by (simp add: poll_loop.simps)
  next
    case True
    show ?thesis
    proof (cases "status attempt")
      case (FetchThrew m)
      with True "1.IH"(1)[of m] show ?thesis by (simp add: poll_loop.simps[of status options attempt s])
    next
      case (NotOk e)
      with True "1.IH"(2)[of e] show ?thesis by (simp add: poll_loop.simps[of status options attempt s])
    next
      case (Ok d)
      let ?s1 = "s\<lparr>finalStatus := sr_status d, finalTxHash := sr_transactionHash d\<rparr>"
      let ?s2 = "if finalStatus ?s1 \<noteq> lastStatus ?s1
                 then ?s1\<lparr>sent := sent ?s1 @ [TRANSACTION_STATUS (finalStatus ?s1) (finalTxHash ?s1)],
                          lastStatus := finalStatus ?s1\<rparr>
                 else ?s1"
      have s2: "finalStatus ?s2 = sr_status d" "finalTxHash ?s2 = sr_transactionHash d" by simp_all
      show ?thesis
      proof (cases "finalStatus ?s2 = ''failed'' \<or> finalStatus ?s2 = ''expired''
                     \<or> isSuccessStatus options (finalStatus ?s2)")
        case stop: True
        then have "poll_loop status options attempt s = ?s2"
          using True Ok by (simp add: poll_loop.simps[of status options attempt s] Let_def)
        with s2 True Ok show ?thesis by auto
      next
        case go: False
        then have eq: "poll_loop status options attempt s = poll_loop status options (Suc attempt) ?s2"
          using True Ok by (simp add: poll_loop.simps[of status options attempt s] Let_def)
        from go have "\<not> (finalStatus ?s2 = ''failed'' \<or> finalStatus ?s2 = ''expired'')"
          "\<not> isSuccessStatus options (finalStatus ?s2)" by auto
        from "1.IH"(3)[OF True Ok refl refl refl refl] go
        have IH: "(finalStatus (poll_loop status options (Suc attempt) ?s2) = finalStatus ?s2 \<and>
                finalTxHash (poll_loop status options (Suc attempt) ?s2) = finalTxHash ?s2) \<or>
               (\<exists>i<maxAttempts. \<exists>d. status i = Ok d \<and>
                  finalStatus (poll_loop status options (Suc attempt) ?s2) = sr_status d \<and>
                  finalTxHash (poll_loop status options (Suc attempt) ?s2) = sr_transactionHash d)"
          by (simp add: Let_def)
        then show ?thesis unfolding eq using s2 True Ok by auto
      qed
    qed
  qed
qed

lemma sendIntent_poll_observed:
  "(finalStatus (sendIntent_poll env options ex) = ex_status ex \<and>
    finalTxHash (sendIntent_poll env options ex) = ex_transactionHash ex) \<or>
   (\<exists>i<maxAttempts. \<exists>d. e_status env i = Ok d \<and>
      finalStatus (sendIntent_poll env options ex) = sr_status d \<and>
      finalTxHash (sendIntent_poll env options ex) = sr_transactionHash d)"
proof (cases "ex_status ex = ''pending''")
  case False
  then show ?thesis by (simp add: sendIntent_poll_def)
next
  case True
  let ?s0 = "\<lparr>finalStatus = ex_status ex, finalTxHash = ex_transactionHash ex,
              lastStatus = ''pending'', sent = [TRANSACTION_STATUS ''pending'' None]\<rparr>"
  from True have eq: "sendIntent_poll env options ex = poll_loop (e_status env) options 0 ?s0"
    by (simp add: sendIntent_poll_def)
  from poll_loop_observed[of "e_status env" options 0 ?s0] show ?thesis
    unfolding eq by simp
qed

lemma sendIntent_settle_result:
  assumes "sendIntent_settle env dO options ex = (posted, Returns r)"
  shows "(r_success r \<longrightarrow> isSuccessStatus options (finalStatus (sendIntent_poll env options ex)))"
    and "(r_status r = ''failed'' \<and> truthy (r_transactionHash r) \<longrightarrow>
            finalStatus (sendIntent_poll env options ex) = ''failed'' \<and>
            finalTxHash (sendIntent_poll env options ex) = r_transactionHash r)"
  using assms
  by (auto simp: sendIntent_settle_def Let_def split: if_splits)

text \<open>A returned result is either one of the failures built before the execute response
  exists (no hash), or it comes from the last steps.\<close>

lemma sendIntent_execute_cases:
  assumes "sendIntent_execute env dO options p sg = (posted, Returns r)"
  shows "(\<not> r_success r \<and> r_transactionHash r = None \<and> r_status r = ''failed'') \<or>
         (\<exists>ex posted'. from_execute env ex \<and> sendIntent_settle env dO options ex = (posted', Returns r))"
proof (cases "truthy (sg_intentId sg)")
  case True
  let ?ex = "\<lparr>ex_success = True, ex_intentId = the (sg_intentId sg), ex_operationId = None,
              ex_status = ''pending'', ex_transactionHash = None, ex_error = None\<rparr>"
  from True assms have "sendIntent_settle env dO options ?ex = (posted, Returns r)"
    by (simp add: sendIntent_execute_def)
  moreover have "from_execute env ?ex" by (simp add: from_execute_def)
  ultimately show ?thesis by blast
next
  case False
  let ?body = "\<lparr>eb_intentOp = pr_intentOp p, eb_userId = pr_userId p,
                eb_targetChain = pr_targetChain p, eb_calls = pr_calls p,
                eb_expiresAt = pr_expiresAt p, eb_signature = sg_signature sg,
                eb_passkey = sg_passkey sg\<rparr>"
  show ?thesis
  proof (cases "e_execute env ?body")
    case (FetchThrew m)
    with False assms show ?thesis
      by (auto simp: sendIntent_execute_def failed_result_def split: if_splits)
  next
    case (NotOk e)
    with False assms show ?thesis
      by (auto simp: sendIntent_execute_def failed_result_def split: if_splits)
  next
    case (Ok ex)
    with False assms have "sendIntent_settle env dO options ex = (posted, Returns r)"
      by (simp add: sendIntent_execute_def)
    moreover from Ok have "from_execute env ex" unfolding from_execute_def by blast
    ultimately show ?thesis by blast
  qed
qed

lemma sendIntent_session_cases:
  assumes "sendIntent_session U cfg env options p = (posted, Returns r)"
  shows "(\<not> r_success r \<and> r_transactionHash r = None \<and> r_status r = ''failed'') \<or>
         (\<exists>ex posted'. from_execute env ex \<and>
            sendIntent_settle env (getDialogOrigin U cfg) options ex = (posted', Returns r))"
proof -
  let ?dO = "getDialogOrigin U cfg"
  let ?P = "(\<not> r_success r \<and> r_transactionHash r = None \<and> r_status r = ''failed'') \<or>
         (\<exists>ex posted'. from_execute env ex \<and>
            sendIntent_settle env ?dO options ex = (posted', Returns r))"
  have ex: "\<And>p' sg posted2. sendIntent_execute env ?dO options p' sg = (posted2, Returns r) \<Longrightarrow> ?P"
    by (rule sendIntent_execute_cases)
  from assms show ?thesis
    by (auto simp: sendIntent_session_def Let_def failed_result_def
        split: option.splits bool.splits prod.splits if_splits dest: ex)
qed

lemma sendIntent_cases:
  assumes "run_result (sendIntent U cfg env st options) = Returns r"
  shows "(\<not> r_success r \<and> r_transactionHash r = None \<and> r_status r = ''failed'') \<or>
         (\<exists>ex posted'. from_execute env ex \<and>
            sendIntent_settle env (getDialogOrigin U cfg) options ex = (posted', Returns r))"
proof (cases "sendIntent_validate options")
  case (Some inv)
  with assms have "r = inv" by (simp add: sendIntent_def)
  moreover from Some have "\<not> r_success inv \<and> r_transactionHash inv = None \<and> r_status inv = ''failed''"
    by (auto simp: sendIntent_validate_def Let_def failed_result_def split: if_splits)
  ultimately show ?thesis by simp
next
  case None
  show ?thesis
  proof (cases "e_prepare env (sendIntent_requestBody cfg options)")
    case (PrepareThrew m)
    with None assms show ?thesis by (auto simp: sendIntent_def failed_result_def)
  next
    case (PrepareNotOk errorData)
    with None assms show ?thesis
      by (auto simp: sendIntent_def sendIntent_prepare_failed_def failed_result_def failed_with_def
          split: sum.splits)
  next
    case (PrepareOk p)
    obtain posted res where s: "sendIntent_session U cfg env options p = (posted, res)"
      by (cases "sendIntent_session U cfg env options p")
    with None PrepareOk assms have "res = Returns r" by (simp add: sendIntent_def)
    with s show ?thesis using sendIntent_session_cases by blast
  qed
qed



lemmas run_defs = sendIntent_def sendIntent_validate_def sendIntent_requestBody_def
  sendIntent_session_def sendIntent_execute_def sendIntent_settle_def sendIntent_poll_def
  sendIntent_onRefresh_def createModalDialog_def getDialogOrigin_def getDialogUrl_def
  waitForDialogReady_def waitForDialogReady_start_def ready_handleMessage_def ready_handleClose_def
  teardown_def resolve_def waitForSigningWithRefresh_handleMessage_def signing_outcome_def
  signing_none_def waitForDialogClose_handleMessage_def resolved_calls_def resolved_targetChain_def
  resolved_username_def serializedTokenRequests_def normalize_signedIntent_def or_else_def
  failed_result_def isSuccessStatus_def closeOn_of_def maxAttempts_def poll_loop.simps Let_def
  URL_origin_example_def client_config_example_def options_example_def intent_env_example_def
  dialog_executed_def signature_returned_def msg_of_def no_data_def


lemma run_failed_with_hash:
  "run_result (sendIntent URL_origin_example client_config_example
      (intent_env_example dialog_executed (NotOk None)
         (\<lambda>_. Ok \<lparr>sr_status = ''failed'', sr_transactionHash = Some ''0xdead''\<rparr>) [])
      Map.empty (options_example None None))
   = Returns \<lparr>r_success = False, r_intentId = ''intent-1'', r_status = ''failed'',
       r_transactionHash = Some ''0xdead'', r_operationId = None, r_error = None\<rparr>"
  by (simp add: run_defs)


lemma run_hash_after_close:
  "run_result (sendIntent URL_origin_example client_config_example
      (intent_env_example signature_returned
         (Ok \<lparr>ex_success = True, ex_intentId = ''intent-2'', ex_operationId = Some ''op-2'',
              ex_status = ''filled'', ex_transactionHash = None, ex_error = None\<rparr>)
         (\<lambda>_. FetchThrew ''down'')
         [FetchThrew ''down'', Ok \<lparr>sr_status = ''filled'', sr_transactionHash = Some ''0xabc''\<rparr>])
      Map.empty (options_example (Some Completed) (Some True)))
   = Returns \<lparr>r_success = False, r_intentId = ''intent-2'', r_status = ''completed'',
       r_transactionHash = Some ''0xabc'', r_operationId = Some ''op-2'', r_error = None\<rparr>"
  by (simp add: run_defs)




text \<open>
  C5, as stated, fails: when the status endpoint reports \<open>failed\<close> together with a
  transaction hash, the returned result has status \<open>failed\<close> and carries that hash.
\<close>

theorem C5_failed_with_hash_counterexample:
  "run_result (sendIntent URL_origin_example client_config_example
      (intent_env_example dialog_executed (NotOk None)
         (\<lambda>_. Ok \<lparr>sr_status = ''failed'', sr_transactionHash = Some ''0xdead''\<rparr>) [])
      Map.empty (options_example None None))
   = Returns \<lparr>r_success = False, r_intentId = ''intent-1'', r_status = ''failed'',
       r_transactionHash = Some ''0xdead'', r_operationId = None, r_error = None\<rparr>"
  by (simp add: run_defs)

text \<open>
  C5 (amended): a result returned by \<open>sendIntent\<close> has status \<open>failed\<close> together with a
  populated transaction hash only when the execute endpoint or a status poll itself
  reported status \<open>failed\<close> with that hash; every failed result that \<open>sendIntent\<close> builds
  on its own (validation, prepare, cancelled handshake, rejected signing, execute
  failure, hash timeout) carries no transaction hash.
\<close>

theorem C5_failed_hash_is_remote:
  "run_result (sendIntent U cfg env st options) = Returns r \<Longrightarrow>
   r_status r = ''failed'' \<Longrightarrow> truthy (r_transactionHash r) \<Longrightarrow>
     (\<exists>body ex. e_execute env body = Ok ex \<and> ex_status ex = ''failed''
         \<and> ex_transactionHash ex = r_transactionHash r)
     \<or> (\<exists>i<maxAttempts. \<exists>d. e_status env i = Ok d \<and> sr_status d = ''failed''
         \<and> sr_transactionHash d = r_transactionHash r)"
proof -
  assume a: "run_result (sendIntent U cfg env st options) = Returns r"
    and f: "r_status r = ''failed''" and h: "truthy (r_transactionHash r)"
  from h have "r_transactionHash r \<noteq> None" by (cases "r_transactionHash r") auto
  with sendIntent_cases[OF a]
  obtain ex' posted' where fe: "from_execute env ex'"
    and se: "sendIntent_settle env (getDialogOrigin U cfg) options ex' = (posted', Returns r)"
    by auto
  from sendIntent_settle_result(2)[OF se] f h
  have fin: "finalStatus (sendIntent_poll env options ex') = ''failed''"
    "finalTxHash (sendIntent_poll env options ex') = r_transactionHash r" by simp_all
  from sendIntent_poll_observed[of env options ex'] show ?thesis
  proof
    assume "finalStatus (sendIntent_poll env options ex') = ex_status ex' \<and>
            finalTxHash (sendIntent_poll env options ex') = ex_transactionHash ex'"
    with fin have e: "ex_status ex' = ''failed''" "ex_transactionHash ex' = r_transactionHash r" by simp_all
    with fe obtain body where "e_execute env body = Ok ex'" by (auto simp: from_execute_def)
    with e show ?thesis by blast
  next
    assume "\<exists>i<maxAttempts. \<exists>d. e_status env i = Ok d \<and>
      finalStatus (sendIntent_poll env options ex') = sr_status d \<and>
      finalTxHash (sendIntent_poll env options ex') = sr_transactionHash d"
    with fin show ?thesis by auto
  qed
qed

theorem C5_failed_hash_is_remote_witness:
  "run_result (sendIntent URL_origin_example client_config_example
      (intent_env_example dialog_executed (NotOk None)
         (\<lambda>_. Ok \<lparr>sr_status = ''failed'', sr_transactionHash = Some ''0xdead''\<rparr>) [])
      Map.empty (options_example None None))
     = Returns \<lparr>r_success = False, r_intentId = ''intent-1'', r_status = ''failed'',
         r_transactionHash = Some ''0xdead'', r_operationId = None, r_error = None\<rparr>
   \<and> (\<exists>i<maxAttempts. \<exists>d.
         Ok \<lparr>sr_status = ''failed'', sr_transactionHash = Some ''0xdead''\<rparr> = Ok d
         \<and> sr_status d = ''failed'' \<and> sr_transactionHash d = Some ''0xdead'')"
proof -
  let ?env = "intent_env_example dialog_executed (NotOk None)
         (\<lambda>_. Ok \<lparr>sr_status = ''failed'', sr_transactionHash = Some ''0xdead''\<rparr>) []"
  let ?r = "\<lparr>r_success = False, r_intentId = ''intent-1'', r_status = ''failed'',
         r_transactionHash = Some ''0xdead'', r_operationId = None, r_error = None\<rparr>"
  have run: "run_result (sendIntent URL_origin_example client_config_example ?env Map.empty
               (options_example None None)) = Returns ?r"
    by (rule run_failed_with_hash)
  have nex: "\<And>body. e_execute ?env body = NotOk None"
    by (simp add: intent_env_example_def)
  have st: "e_status ?env = (\<lambda>_. Ok \<lparr>sr_status = ''failed'', sr_transactionHash = Some ''0xdead''\<rparr>)"
    by (simp add: intent_env_example_def)
  from C5_failed_hash_is_remote[OF run] nex
  have "\<exists>i<maxAttempts. \<exists>d. e_status ?env i = Ok d \<and> sr_status d = ''failed''
         \<and> sr_transactionHash d = r_transactionHash ?r"
    by simp
  with run show ?thesis unfolding st by simp
qed

text \<open>
  C10: when a hash wait was requested, no transaction hash is known once the dialog has
  closed, and the hash wait then obtains one, the returned result has status
  \<open>completed\<close> and carries that hash, while its \<open>success\<close> is still the close-on test of
  the status observed before the dialog closed; so a last observed status below the
  threshold gives status \<open>completed\<close>, a hash, and \<open>success = false\<close>. Every result of
  \<open>sendIntent\<close> whose status is not \<open>failed\<close> is produced by these last steps.
\<close>

theorem C10_hash_after_close:
  "(o_waitForHash options = Some True
      \<and> \<not> truthy (finalTxHash (sendIntent_poll env options ex))
      \<and> waitForDialogClose dO (e_close_events env)
      \<and> truthy (waitForTransactionHash (e_hash_polls env)) \<longrightarrow>
      (\<exists>posted r. sendIntent_settle env dO options ex = (posted, Returns r)
         \<and> r_status r = ''completed''
         \<and> r_transactionHash r = waitForTransactionHash (e_hash_polls env)
         \<and> r_success r = isSuccessStatus options (finalStatus (sendIntent_poll env options ex))))
   \<and> (run_result (sendIntent U cfg env st options) = Returns r' \<and> r_status r' \<noteq> ''failed'' \<longrightarrow>
        (\<exists>ex' posted'. from_execute env ex'
           \<and> sendIntent_settle env (getDialogOrigin U cfg) options ex' = (posted', Returns r')))"
proof (intro conjI impI)
  assume "o_waitForHash options = Some True
      \<and> \<not> truthy (finalTxHash (sendIntent_poll env options ex))
      \<and> waitForDialogClose dO (e_close_events env)
      \<and> truthy (waitForTransactionHash (e_hash_polls env))"
  then show "\<exists>posted r. sendIntent_settle env dO options ex = (posted, Returns r)
         \<and> r_status r = ''completed''
         \<and> r_transactionHash r = waitForTransactionHash (e_hash_polls env)
         \<and> r_success r = isSuccessStatus options (finalStatus (sendIntent_poll env options ex))"
    by (simp add: sendIntent_settle_def Let_def)
next
  assume a: "run_result (sendIntent U cfg env st options) = Returns r' \<and> r_status r' \<noteq> ''failed''"
  then have ret: "run_result (sendIntent U cfg env st options) = Returns r'" by simp
  from sendIntent_cases[OF ret] a
  show "\<exists>ex' posted'. from_execute env ex'
           \<and> sendIntent_settle env (getDialogOrigin U cfg) options ex' = (posted', Returns r')"
    by auto
qed

theorem C10_hash_after_close_witness:
  "run_result (sendIntent URL_origin_example client_config_example
      (intent_env_example signature_returned
         (Ok \<lparr>ex_success = True, ex_intentId = ''intent-2'', ex_operationId = Some ''op-2'',
              ex_status = ''filled'', ex_transactionHash = None, ex_error = None\<rparr>)
         (\<lambda>_. FetchThrew ''down'')
         [FetchThrew ''down'', Ok \<lparr>sr_status = ''filled'', sr_transactionHash = Some ''0xabc''\<rparr>])
      Map.empty (options_example (Some Completed) (Some True)))
     = Returns \<lparr>r_success = False, r_intentId = ''intent-2'', r_status = ''completed'',
         r_transactionHash = Some ''0xabc'', r_operationId = Some ''op-2'', r_error = None\<rparr>
   \<and> (\<exists>posted r.
         sendIntent_settle
           (intent_env_example signature_returned
              (Ok \<lparr>ex_success = True, ex_intentId = ''intent-2'', ex_operationId = Some ''op-2'',
                   ex_status = ''filled'', ex_transactionHash = None, ex_error = None\<rparr>)
              (\<lambda>_. FetchThrew ''down'')
              [FetchThrew ''down'', Ok \<lparr>sr_status = ''filled'', sr_transactionHash = Some ''0xabc''\<rparr>])
           ''https://d.test'' (options_example (Some Completed) (Some True))
           \<lparr>ex_success = True, ex_intentId = ''intent-2'', ex_operationId = Some ''op-2'',
            ex_status = ''filled'', ex_transactionHash = None, ex_error = None\<rparr>
           = (posted, Returns r)
         \<and> r_status r = ''completed'' \<and> r_transactionHash r = Some ''0xabc'' \<and> \<not> r_success r)
   \<and> (\<exists>ex' posted'.
         from_execute
           (intent_env_example signature_returned
              (Ok \<lparr>ex_success = True, ex_intentId = ''intent-2'', ex_operationId = Some ''op-2'',
                   ex_status = ''filled'', ex_transactionHash = None, ex_error = None\<rparr>)
              (\<lambda>_. FetchThrew ''down'')
              [FetchThrew ''down'', Ok \<lparr>sr_status = ''filled'', sr_transactionHash = Some ''0xabc''\<rparr>])
           ex'
         \<and> sendIntent_settle
           (intent_env_example signature_returned
              (Ok \<lparr>ex_success = True, ex_intentId = ''intent-2'', ex_operationId = Some ''op-2'',
                   ex_status = ''filled'', ex_transactionHash = None, ex_error = None\<rparr>)
              (\<lambda>_. FetchThrew ''down'')
              [FetchThrew ''down'', Ok \<lparr>sr_status = ''filled'', sr_transactionHash = Some ''0xabc''\<rparr>])
           ''https://d.test'' (options_example (Some Completed) (Some True)) ex'
           = (posted', Returns \<lparr>r_success = False, r_intentId = ''intent-2'', r_status = ''completed'',
                r_transactionHash = Some ''0xabc'', r_operationId = Some ''op-2'', r_error = None\<rparr>))"
proof -
  let ?ex = "\<lparr>ex_success = True, ex_intentId = ''intent-2'', ex_operationId = Some ''op-2'',
              ex_status = ''filled'', ex_transactionHash = None, ex_error = None\<rparr>"
  let ?env = "intent_env_example signature_returned (Ok ?ex) (\<lambda>_. FetchThrew ''down'')
         [FetchThrew ''down'', Ok \<lparr>sr_status = ''filled'', sr_transactionHash = Some ''0xabc''\<rparr>]"
  let ?opts = "options_example (Some Completed) (Some True)"
  let ?r = "\<lparr>r_success = False, r_intentId = ''intent-2'', r_status = ''completed'',
         r_transactionHash = Some ''0xabc'', r_operationId = Some ''op-2'', r_error = None\<rparr>"
  have dO: "getDialogOrigin URL_origin_example client_config_example = ''https://d.test''"
    by (simp add: getDialogOrigin_def getDialogUrl_def URL_origin_example_def
        client_config_example_def)
  have poll: "sendIntent_poll ?env ?opts ?ex
      = \<lparr>finalStatus = ''filled'', finalTxHash = None, lastStatus = ''pending'', sent = []\<rparr>"
    by (simp add: sendIntent_poll_def)
  have h1: "o_waitForHash ?opts = Some True" by (simp add: options_example_def)
  have h2: "\<not> truthy (finalTxHash (sendIntent_poll ?env ?opts ?ex))" by (simp add: poll)
  have h3: "waitForDialogClose ''https://d.test'' (e_close_events ?env)"
    by (simp add: intent_env_example_def)
  have h4: "waitForTransactionHash (e_hash_polls ?env) = Some ''0xabc''"
    by (simp add: intent_env_example_def)
  have ns: "\<not> isSuccessStatus ?opts ''filled''"
    by (simp add: isSuccessStatus_def closeOn_of_def options_example_def)
  have run: "run_result (sendIntent URL_origin_example client_config_example ?env Map.empty ?opts)
      = Returns ?r"
    by (rule run_hash_after_close)
  note t = C10_hash_after_close[of ?opts ?env ?ex "''https://d.test''"
             URL_origin_example client_config_example Map.empty ?r]
  from t h1 h2 h3 h4
  have "\<exists>posted r. sendIntent_settle ?env ''https://d.test'' ?opts ?ex = (posted, Returns r)
         \<and> r_status r = ''completed''
         \<and> r_transactionHash r = waitForTransactionHash (e_hash_polls ?env)
         \<and> r_success r = isSuccessStatus ?opts (finalStatus (sendIntent_poll ?env ?opts ?ex))"
    by simp
  then have a: "\<exists>posted r. sendIntent_settle ?env ''https://d.test'' ?opts ?ex = (posted, Returns r)
         \<and> r_status r = ''completed'' \<and> r_transactionHash r = Some ''0xabc'' \<and> \<not> r_success r"
    unfolding h4 poll using ns by simp
  from t[THEN conjunct2, rule_format] run
  have b: "\<exists>ex' posted'. from_execute ?env ex'
           \<and> sendIntent_settle ?env (getDialogOrigin URL_origin_example client_config_example)
                ?opts ex' = (posted', Returns ?r)"
    by simp
  from run a b[unfolded dO] show ?thesis by simp
qed

section \<open>The message channel guard\<close>

lemma listen_ignore:
  assumes "\<And>s. h s ev = (s, [])"
  shows "listen h s (xs @ ev # ys) = listen h s (xs @ ys)"
proof (induction xs arbitrary: s)
  case Nil
  show ?case by (simp add: assms split: prod.splits)
next
  case (Cons x xs)
  show ?case by (simp add: Cons.IH split: prod.splits)
qed

lemma foldl_ignore:
  assumes "\<And>s. f s e = s"
  shows "foldl f s (xs @ e # ys) = foldl f s (xs @ ys)"
  by (simp add: assms)

lemma waitForDialogClose_ignore:
  assumes "origin ev \<noteq> dO"
  shows "waitForDialogClose dO (xs @ Message ev # ys) = waitForDialogClose dO (xs @ ys)"
proof (induction xs)
  case Nil
  from assms show ?case by (simp add: waitForDialogClose_handleMessage_def)
next
  case (Cons x xs)
  then show ?case by (cases x) simp_all
qed

lemma ready_deliver_ignore:
  "origin ev \<noteq> dO \<Longrightarrow> ready_deliver dO init s (Message ev) = s"
  by (simp add: ready_handleMessage_def)

text \<open>
  C1: a message whose origin differs from the dialog origin computed from the
  configured dialog URL is discarded by every message listener of a session: the
  ready handshake, the close waiter, the signing waiters (with and without quote
  refresh, by request id, modal, popup, embedded), the auth, authenticate and connect
  waiters, the batch listener and the dialog host's resize and disconnect listener.
  The listener's state is unchanged and it has no effect (no listener removed, no
  cleanup, nothing posted, no promise resolved, no storage key removed), so a run in
  which the message is delivered anywhere in the stream ends exactly like the run
  without it. (The diagnostic console output of \<^verbatim>\<open>waitForSigningResponse\<close> is not part
  of the model.)
\<close>

theorem C1_origin_guard:
  assumes "origin ev \<noteq> getDialogOrigin U cfg"
  shows
   "ready_handleMessage (getDialogOrigin U cfg) init ev hs = hs
    \<and> waitForDialogReady (getDialogOrigin U cfg) init (es @ Message ev # es')
        = waitForDialogReady (getDialogOrigin U cfg) init (es @ es')
    \<and> waitForDialogClose (getDialogOrigin U cfg) (es @ Message ev # es')
        = waitForDialogClose (getDialogOrigin U cfg) (es @ es')
    \<and> listen (stateless (waitForDialogClose_handleMessage (getDialogOrigin U cfg))) () (xs @ ev # ys)
        = listen (stateless (waitForDialogClose_handleMessage (getDialogOrigin U cfg))) () (xs @ ys)
    \<and> listen (waitForSigningWithRefresh_handleMessage (getDialogOrigin U cfg) onRefresh) s (xs @ ev # ys)
        = listen (waitForSigningWithRefresh_handleMessage (getDialogOrigin U cfg) onRefresh) s (xs @ ys)
    \<and> listen (stateless (waitForSigningResponse_handleMessage (getDialogOrigin U cfg))) () (xs @ ev # ys)
        = listen (stateless (waitForSigningResponse_handleMessage (getDialogOrigin U cfg))) () (xs @ ys)
    \<and> listen (stateless (waitForIntentSigningResponse_handleMessage (getDialogOrigin U cfg) requestId)) () (xs @ ev # ys)
        = listen (stateless (waitForIntentSigningResponse_handleMessage (getDialogOrigin U cfg) requestId)) () (xs @ ys)
    \<and> listen (stateless (waitForModalSigningResponse_handleMessage (getDialogOrigin U cfg) requestId)) () (xs @ ev # ys)
        = listen (stateless (waitForModalSigningResponse_handleMessage (getDialogOrigin U cfg) requestId)) () (xs @ ys)
    \<and> listen (stateless (waitForPopupResponse_handleMessage (getDialogOrigin U cfg) requestId)) () (xs @ ev # ys)
        = listen (stateless (waitForPopupResponse_handleMessage (getDialogOrigin U cfg) requestId)) () (xs @ ys)
    \<and> listen (stateless (waitForEmbedResponse_handleMessage (getDialogOrigin U cfg) requestId)) () (xs @ ev # ys)
        = listen (stateless (waitForEmbedResponse_handleMessage (getDialogOrigin U cfg) requestId)) () (xs @ ys)
    \<and> listen (waitForModalAuthResponse_handleMessage (getDialogOrigin U cfg) cfg) dialogReady (xs @ ev # ys)
        = listen (waitForModalAuthResponse_handleMessage (getDialogOrigin U cfg) cfg) dialogReady (xs @ ys)
    \<and> listen (stateless (waitForPopupAuthResponse_handleMessage (getDialogOrigin U cfg))) () (xs @ ev # ys)
        = listen (stateless (waitForPopupAuthResponse_handleMessage (getDialogOrigin U cfg))) () (xs @ ys)
    \<and> listen (stateless (waitForAuthenticateResponse_handleMessage (getDialogOrigin U cfg))) () (xs @ ev # ys)
        = listen (stateless (waitForAuthenticateResponse_handleMessage (getDialogOrigin U cfg))) () (xs @ ys)
    \<and> listen (stateless (waitForConnectResponse_handleMessage (getDialogOrigin U cfg))) () (xs @ ev # ys)
        = listen (stateless (waitForConnectResponse_handleMessage (getDialogOrigin U cfg))) () (xs @ ys)
    \<and> listen (batch_handleMessage (getDialogOrigin U cfg) refresh) bs (xs @ ev # ys)
        = listen (batch_handleMessage (getDialogOrigin U cfg) refresh) bs (xs @ ys)
    \<and> (\<forall>hostOrigin d. createModalDialog U cfg = Some (hostOrigin, d) \<longrightarrow>
          hostOrigin = getDialogOrigin U cfg
          \<and> listen (stateless (createModalDialog_handleMessage hostOrigin)) () (xs @ ev # ys)
              = listen (stateless (createModalDialog_handleMessage hostOrigin)) () (xs @ ys))"
proof -
  let ?dO = "getDialogOrigin U cfg"
  note a = assms
  have 1: "ready_handleMessage ?dO init ev hs = hs" using a by (simp add: ready_handleMessage_def)
  have 2: "waitForDialogReady ?dO init (es @ Message ev # es') = waitForDialogReady ?dO init (es @ es')"
    unfolding waitForDialogReady_def using a by (simp add: ready_handleMessage_def)
  have 3: "waitForDialogClose ?dO (es @ Message ev # es') = waitForDialogClose ?dO (es @ es')"
    using a by (rule waitForDialogClose_ignore)
  have 4: "listen (stateless (waitForDialogClose_handleMessage ?dO)) () (xs @ ev # ys)
        = listen (stateless (waitForDialogClose_handleMessage ?dO)) () (xs @ ys)"
    by (rule listen_ignore) (simp add: stateless_def waitForDialogClose_handleMessage_def a)
  have 5: "listen (waitForSigningWithRefresh_handleMessage ?dO onRefresh) s (xs @ ev # ys)
        = listen (waitForSigningWithRefresh_handleMessage ?dO onRefresh) s (xs @ ys)"
    by (rule listen_ignore) (simp add: waitForSigningWithRefresh_handleMessage_def a)
  have 6: "listen (stateless (waitForSigningResponse_handleMessage ?dO)) () (xs @ ev # ys)
        = listen (stateless (waitForSigningResponse_handleMessage ?dO)) () (xs @ ys)"
    by (rule listen_ignore) (simp add: stateless_def waitForSigningResponse_handleMessage_def a)
  have 7: "listen (stateless (waitForIntentSigningResponse_handleMessage ?dO requestId)) () (xs @ ev # ys)
        = listen (stateless (waitForIntentSigningResponse_handleMessage ?dO requestId)) () (xs @ ys)"
    by (rule listen_ignore) (simp add: stateless_def waitForIntentSigningResponse_handleMessage_def a)
  have 8: "listen (stateless (waitForModalSigningResponse_handleMessage ?dO requestId)) () (xs @ ev # ys)
        = listen (stateless (waitForModalSigningResponse_handleMessage ?dO requestId)) () (xs @ ys)"
    by (rule listen_ignore) (simp add: stateless_def waitForModalSigningResponse_handleMessage_def a)
  have 9: "listen (stateless (waitForPopupResponse_handleMessage ?dO requestId)) () (xs @ ev # ys)
        = listen (stateless (waitForPopupResponse_handleMessage ?dO requestId)) () (xs @ ys)"
    by (rule listen_ignore) (simp add: stateless_def waitForPopupResponse_handleMessage_def a)
  have 10: "listen (stateless (waitForEmbedResponse_handleMessage ?dO requestId)) () (xs @ ev # ys)
        = listen (stateless (waitForEmbedResponse_handleMessage ?dO requestId)) () (xs @ ys)"
    by (rule listen_ignore) (simp add: stateless_def waitForEmbedResponse_handleMessage_def a)
  have 11: "listen (waitForModalAuthResponse_handleMessage ?dO cfg) dialogReady (xs @ ev # ys)
        = listen (waitForModalAuthResponse_handleMessage ?dO cfg) dialogReady (xs @ ys)"
    by (rule listen_ignore) (simp add: waitForModalAuthResponse_handleMessage_def a)
  have 12: "listen (stateless (waitForPopupAuthResponse_handleMessage ?dO)) () (xs @ ev # ys)
        = listen (stateless (waitForPopupAuthResponse_handleMessage ?dO)) () (xs @ ys)"
    by (rule listen_ignore) (simp add: stateless_def waitForPopupAuthResponse_handleMessage_def a)
  have 13: "listen (stateless (waitForAuthenticateResponse_handleMessage ?dO)) () (xs @ ev # ys)
        = listen (stateless (waitForAuthenticateResponse_handleMessage ?dO)) () (xs @ ys)"
    by (rule listen_ignore) (simp add: stateless_def waitForAuthenticateResponse_handleMessage_def a)
  have 14: "listen (stateless (waitForConnectResponse_handleMessage ?dO)) () (xs @ ev # ys)
        = listen (stateless (waitForConnectResponse_handleMessage ?dO)) () (xs @ ys)"
    by (rule listen_ignore) (simp add: stateless_def waitForConnectResponse_handleMessage_def a)
  have 15: "listen (batch_handleMessage ?dO refresh) bs (xs @ ev # ys)
        = listen (batch_handleMessage ?dO refresh) bs (xs @ ys)"
    by (rule listen_ignore) (simp add: batch_handleMessage_def a)
  have 16: "\<forall>hostOrigin d. createModalDialog U cfg = Some (hostOrigin, d) \<longrightarrow>
          hostOrigin = ?dO
          \<and> listen (stateless (createModalDialog_handleMessage hostOrigin)) () (xs @ ev # ys)
              = listen (stateless (createModalDialog_handleMessage hostOrigin)) () (xs @ ys)"
  proof (intro allI impI)
    fix hostOrigin d
    assume c: "createModalDialog U cfg = Some (hostOrigin, d)"
    then have h: "hostOrigin = ?dO"
      by (auto simp: createModalDialog_def getDialogOrigin_def split: option.splits)
    have "listen (stateless (createModalDialog_handleMessage hostOrigin)) () (xs @ ev # ys)
              = listen (stateless (createModalDialog_handleMessage hostOrigin)) () (xs @ ys)"
      by (rule listen_ignore) (simp add: stateless_def createModalDialog_handleMessage_def a h)
    with h show "hostOrigin = ?dO
          \<and> listen (stateless (createModalDialog_handleMessage hostOrigin)) () (xs @ ev # ys)
              = listen (stateless (createModalDialog_handleMessage hostOrigin)) () (xs @ ys)"
      by simp
  qed
  from 1 2 3 4 5 6 7 8 9 10 11 12 13 14 15 16 show ?thesis by (intro conjI)
qed

theorem C1_origin_guard_witness:
  "origin (msg_of ''https://evil.test'' ''PASSKEY_READY'')
     \<noteq> getDialogOrigin URL_origin_example client_config_example
   \<and> waitForDialogReady ''https://d.test'' InitIframe
         [Message (msg_of ''https://evil.test'' ''PASSKEY_READY''),
          Message (msg_of ''https://d.test'' ''PASSKEY_CLOSE'')]
       = waitForDialogReady ''https://d.test'' InitIframe
           [Message (msg_of ''https://d.test'' ''PASSKEY_CLOSE'')]
   \<and> hs_posted (waitForDialogReady ''https://d.test'' InitIframe
         [Message (msg_of ''https://evil.test'' ''PASSKEY_READY''),
          Message (msg_of ''https://d.test'' ''PASSKEY_CLOSE'')]) = []
   \<and> listen (stateless (createModalDialog_handleMessage ''https://d.test'')) ()
         [msg_of ''https://evil.test'' ''PASSKEY_READY'',
          msg_of ''https://d.test'' ''PASSKEY_DISCONNECT'']
       = ((), [RemoveStoredUser ''1auth-user''])"
proof -
  let ?bad = "msg_of ''https://evil.test'' ''PASSKEY_READY''"
  have dO: "getDialogOrigin URL_origin_example client_config_example = ''https://d.test''"
    by (simp add: getDialogOrigin_def getDialogUrl_def URL_origin_example_def
        client_config_example_def)
  have bad: "origin ?bad \<noteq> getDialogOrigin URL_origin_example client_config_example"
    by (simp add: dO msg_of_def)
  have cm: "createModalDialog URL_origin_example client_config_example
      = Some (''https://d.test'',
              \<lparr>modal_message_listener = True, keydown_listener = True, dialog_open = True,
               dialog_attached = True, close_events_raised = 0\<rparr>)"
    by (simp add: createModalDialog_def getDialogUrl_def URL_origin_example_def
        client_config_example_def)
  note g = C1_origin_guard[OF bad, unfolded dO,
             of InitIframe _ "[]" "[Message (msg_of ''https://d.test'' ''PASSKEY_CLOSE'')]"
                "[]" "[msg_of ''https://d.test'' ''PASSKEY_DISCONNECT'']"]
  note r = g[THEN conjunct2, THEN conjunct1, unfolded append_Nil]
  note last = g[THEN conjunct2, THEN conjunct2, THEN conjunct2, THEN conjunct2, THEN conjunct2,
                THEN conjunct2, THEN conjunct2, THEN conjunct2, THEN conjunct2, THEN conjunct2,
                THEN conjunct2, THEN conjunct2, THEN conjunct2, THEN conjunct2, THEN conjunct2]
  note m = last[rule_format, OF cm, THEN conjunct2, unfolded append_Nil]
  have p: "hs_posted (waitForDialogReady ''https://d.test'' InitIframe
             [Message (msg_of ''https://d.test'' ''PASSKEY_CLOSE'')]) = []"
    by (simp add: waitForDialogReady_def waitForDialogReady_start_def ready_handleMessage_def
        teardown_def resolve_def msg_of_def no_data_def Let_def)
  have l: "listen (stateless (createModalDialog_handleMessage ''https://d.test'')) ()
           [msg_of ''https://d.test'' ''PASSKEY_DISCONNECT'']
         = ((), [RemoveStoredUser ''1auth-user''])"
    by (simp add: stateless_def createModalDialog_handleMessage_def msg_of_def no_data_def)
  from bad r m p l show ?thesis by simp
qed

section \<open>The dialog host\<close>







lemma fresh_docs:
  "cleanup fresh_dialog = \<lparr>modal_message_listener = False, keydown_listener = False,
      dialog_open = False, dialog_attached = False, close_events_raised = 1\<rparr>"
  "dialog_close fresh_dialog = \<lparr>modal_message_listener = True, keydown_listener = True,
      dialog_open = False, dialog_attached = True, close_events_raised = 1\<rparr>"
  by (simp_all add: fresh_dialog_def cleanup_def dialog_remove_def dialog_close_def
      removeKeydownListener_def removeMessageListener_def)

lemma fresh_moves:
  "cleanup (dialog_close fresh_dialog) = cleanup fresh_dialog"
  "cleanup (cleanup fresh_dialog) = cleanup fresh_dialog"
  "dialog_close (dialog_close fresh_dialog) = dialog_close fresh_dialog"
  "dialog_close (cleanup fresh_dialog) = cleanup fresh_dialog"
  by (simp_all add: fresh_dialog_def cleanup_def dialog_remove_def dialog_close_def
      removeKeydownListener_def removeMessageListener_def)

lemma fresh_raised:
  "close_events_raised fresh_dialog = 0"
  "close_events_raised (dialog_close fresh_dialog) = 1"
  "close_events_raised (cleanup fresh_dialog) = 1"
  by (simp_all add: fresh_dialog_def cleanup_def dialog_remove_def dialog_close_def
      removeKeydownListener_def removeMessageListener_def)










section \<open>The ready handshake\<close>

lemma deliver_unregistered:
  "\<not> message_listener s \<Longrightarrow> \<not> close_listener s \<Longrightarrow> ready_deliver dO init s ev = s"
  by (cases ev) simp_all

lemma run_unregistered:
  "\<not> message_listener s \<Longrightarrow> \<not> close_listener s \<Longrightarrow> foldl (ready_deliver dO init) s evs = s"
  by (induction evs) (simp_all add: deliver_unregistered)

lemma deliver_not_decisive:
  "\<not> decisive dO ev \<Longrightarrow> ready_deliver dO init waitForDialogReady_start ev = waitForDialogReady_start"
  by (cases ev) (auto simp: decisive_def ready_handleMessage_def waitForDialogReady_start_def)

lemma deliver_decisive:
  "decisive dO ev \<Longrightarrow>
     ready_deliver dO init waitForDialogReady_start ev = handshake_outcome dO init (Some ev)"
  by (cases ev)
     (auto simp: decisive_def handshake_outcome_def ready_handleMessage_def ready_handleClose_def
        waitForDialogReady_start_def teardown_def resolve_def settled_ready_def settled_closed_def
        Let_def)

lemma outcome_unregistered:
  "\<not> message_listener (handshake_outcome dO init (Some ev))
   \<and> \<not> close_listener (handshake_outcome dO init (Some ev))"
  by (simp add: handshake_outcome_def settled_ready_def settled_closed_def)

lemma run_characterised:
  "foldl (ready_deliver dO init) waitForDialogReady_start evs
     = handshake_outcome dO init (find (decisive dO) evs)"
proof (induction evs)
  case Nil
  show ?case by (simp add: handshake_outcome_def)
next
  case (Cons ev evs)
  show ?case
  proof (cases "decisive dO ev")
    case True
    then show ?thesis
      using outcome_unregistered[of dO init ev]
      by (simp add: deliver_decisive run_unregistered)
  next
    case False
    with Cons show ?thesis by (simp add: deliver_not_decisive)
  qed
qed

lemma waitForDialogReady_characterised:
  "waitForDialogReady dO init evs = handshake_outcome dO init (find (decisive dO) evs)"
  unfolding waitForDialogReady_def by (rule run_characterised)

lemma find_Some_mem: "find P xs = Some x \<Longrightarrow> x \<in> set xs"
  by (induction xs) (auto split: if_splits)

lemma find_append_Some: "find P xs = Some x \<Longrightarrow> find P (xs @ ys) = Some x"
  by (induction xs) (auto split: if_splits)

text \<open>
  C2, at a native close event that arrives while the handshake waits (the user agent
  has closed the modal dialog on a close request of its own): \<^verbatim>\<open>handleClose\<close> of
  \<^verbatim>\<open>waitForDialogReady\<close> resolves \<open>false\<close> without calling the session's \<^verbatim>\<open>cleanup\<close>, and
  \<^verbatim>\<open>sendIntent\<close> returns its cancelled result without calling it either, so that the
  listeners of \<^verbatim>\<open>createModalDialog\<close> stay registered and the closed dialog stays in the
  document. On the same event \<^verbatim>\<open>handleClose\<close> of \<^verbatim>\<open>waitForDialogClose\<close> does call
  \<^verbatim>\<open>cleanup\<close>.
\<close>

theorem C2_native_close_counterexample:
  "hs_resolved (waitForDialogReady ''https://d.test'' InitIframe [NativeClose]) = Some False
   \<and> hs_cleanups (waitForDialogReady ''https://d.test'' InitIframe [NativeClose]) = 0
   \<and> (cleanup ^^ hs_cleanups (waitForDialogReady ''https://d.test'' InitIframe [NativeClose]))
         (dialog_close fresh_dialog)
       = \<lparr>modal_message_listener = True, keydown_listener = True, dialog_open = False,
          dialog_attached = True, close_events_raised = 1\<rparr>
   \<and> run_result (sendIntent URL_origin_example client_config_example
         ((intent_env_example dialog_executed (NotOk None) (\<lambda>_. NotOk None) [])
            \<lparr>e_handshake_events := [NativeClose]\<rparr>)
         Map.empty (options_example None None))
       = Returns (failed_result ''USER_CANCELLED'' ''User closed the dialog'')
   \<and> cw_cleanup_calls (waitForDialogClose_run ''https://d.test'' fresh_dialog
         [CloseRequest, Event NativeClose]) = 1
   \<and> cw_document (waitForDialogClose_run ''https://d.test'' fresh_dialog
         [CloseRequest, Event NativeClose])
       = \<lparr>modal_message_listener = False, keydown_listener = False, dialog_open = False,
          dialog_attached = False, close_events_raised = 1\<rparr>"
proof -
  have h: "waitForDialogReady ''https://d.test'' InitIframe [NativeClose] = settled_closed 0"
    by (simp add: waitForDialogReady_def waitForDialogReady_start_def ready_handleClose_def
        teardown_def resolve_def settled_closed_def)
  have d: "dialog_close fresh_dialog
       = \<lparr>modal_message_listener = True, keydown_listener = True, dialog_open = False,
          dialog_attached = True, close_events_raised = 1\<rparr>"
    by (rule fresh_docs)
  have r: "run_result (sendIntent URL_origin_example client_config_example
         ((intent_env_example dialog_executed (NotOk None) (\<lambda>_. NotOk None) [])
            \<lparr>e_handshake_events := [NativeClose]\<rparr>)
         Map.empty (options_example None None))
       = Returns (failed_result ''USER_CANCELLED'' ''User closed the dialog'')"
    by (simp add: sendIntent_def sendIntent_validate_def sendIntent_requestBody_def
        sendIntent_session_def createModalDialog_def getDialogOrigin_def getDialogUrl_def
        waitForDialogReady_def waitForDialogReady_start_def ready_handleClose_def teardown_def
        resolve_def resolved_calls_def resolved_targetChain_def resolved_username_def
        serializedTokenRequests_def URL_origin_example_def client_config_example_def
        options_example_def intent_env_example_def Let_def)
  have w: "waitForDialogClose_run ''https://d.test'' fresh_dialog [CloseRequest, Event NativeClose]
       = \<lparr>cw_document = cleanup fresh_dialog, cw_close_delivered = 1, cw_message_listener = False,
          cw_close_listener = False, cw_cleanup_calls = 1,
          cw_promise = \<lparr>resolve_calls = 1, settled_with = Some ()\<rparr>\<rparr>"
    by (simp add: waitForDialogClose_run_def waitForDialogClose_start_def
        waitForDialogClose_handleClose_def fresh_moves fresh_raised call_resolve_def
        new_promise_def Let_def)
  from h d r w show ?thesis by (simp add: settled_closed_def fresh_docs)
qed

text \<open>
  C2, what \<^verbatim>\<open>waitForDialogReady\<close> does in every run: the init payload is passed to
  \<^verbatim>\<open>iframe.contentWindow?.postMessage\<close> exactly when the first settling event is a guarded
  ready signal, and nothing is passed to it after a prefix of the events that holds no
  guarded ready signal. When the first settling
  event is a guarded close signal, the handshake calls \<^verbatim>\<open>cleanup\<close> once and resolves
  \<open>false\<close>; when it is the native close event, the handshake resolves \<open>false\<close> and does not
  call \<^verbatim>\<open>cleanup\<close>. Once the promise is resolved the handshake is settled, both its
  listeners are removed, and no later event changes anything.
\<close>

theorem C2_ready_handshake:
  "(hs_posted (waitForDialogReady dO init evs) =
      (if (\<exists>ev. find (decisive dO) evs = Some ev \<and> is_ready_signal dO ev)
       then [(PASSKEY_INIT init, dO)] else []))
   \<and> (hs_posted (waitForDialogReady dO init (take n evs)) \<noteq> [] \<longrightarrow>
        (\<exists>ev \<in> set (take n evs). is_ready_signal dO ev))
   \<and> (find (decisive dO) evs = Some ev \<and> is_close_signal dO ev \<longrightarrow>
        hs_cleanups (waitForDialogReady dO init evs) = 1
        \<and> hs_resolved (waitForDialogReady dO init evs) = Some False)
   \<and> (find (decisive dO) evs = Some NativeClose \<longrightarrow>
        hs_cleanups (waitForDialogReady dO init evs) = 0
        \<and> hs_resolved (waitForDialogReady dO init evs) = Some False)
   \<and> (hs_resolved (waitForDialogReady dO init evs) \<noteq> None \<longrightarrow>
        settled (waitForDialogReady dO init evs)
        \<and> \<not> message_listener (waitForDialogReady dO init evs)
        \<and> \<not> close_listener (waitForDialogReady dO init evs)
        \<and> waitForDialogReady dO init (evs @ later) = waitForDialogReady dO init evs)"
proof (intro conjI impI)
  show "hs_posted (waitForDialogReady dO init evs) =
      (if (\<exists>ev. find (decisive dO) evs = Some ev \<and> is_ready_signal dO ev)
       then [(PASSKEY_INIT init, dO)] else [])"
    by (cases "find (decisive dO) evs")
       (auto simp: waitForDialogReady_characterised handshake_outcome_def settled_ready_def
          settled_closed_def waitForDialogReady_start_def)
next
  assume p: "hs_posted (waitForDialogReady dO init (take n evs)) \<noteq> []"
  then obtain ev where f: "find (decisive dO) (take n evs) = Some ev" and r: "is_ready_signal dO ev"
    by (cases "find (decisive dO) (take n evs)")
       (auto simp: waitForDialogReady_characterised handshake_outcome_def settled_closed_def
          waitForDialogReady_start_def split: if_splits)
  from f have "ev \<in> set (take n evs)" by (rule find_Some_mem)
  with r show "\<exists>ev \<in> set (take n evs). is_ready_signal dO ev" by blast
next
  assume a: "find (decisive dO) evs = Some ev \<and> is_close_signal dO ev"
  then have nr: "\<not> is_ready_signal dO ev" by (cases ev) auto
  from a nr show "hs_cleanups (waitForDialogReady dO init evs) = 1"
    by (simp add: waitForDialogReady_characterised handshake_outcome_def settled_closed_def)
  from a nr show "hs_resolved (waitForDialogReady dO init evs) = Some False"
    by (simp add: waitForDialogReady_characterised handshake_outcome_def settled_closed_def)
next
  assume a: "find (decisive dO) evs = Some NativeClose"
  then show "hs_cleanups (waitForDialogReady dO init evs) = 0"
    by (simp add: waitForDialogReady_characterised handshake_outcome_def settled_closed_def)
  from a show "hs_resolved (waitForDialogReady dO init evs) = Some False"
    by (simp add: waitForDialogReady_characterised handshake_outcome_def settled_closed_def)
next
  assume a: "hs_resolved (waitForDialogReady dO init evs) \<noteq> None"
  then obtain ev where f: "find (decisive dO) evs = Some ev"
    by (cases "find (decisive dO) evs")
       (auto simp: waitForDialogReady_characterised handshake_outcome_def waitForDialogReady_start_def)
  then show "settled (waitForDialogReady dO init evs)"
    by (simp add: waitForDialogReady_characterised handshake_outcome_def settled_ready_def settled_closed_def)
  from f show "\<not> message_listener (waitForDialogReady dO init evs)"
    by (simp add: waitForDialogReady_characterised outcome_unregistered)
  from f show "\<not> close_listener (waitForDialogReady dO init evs)"
    by (simp add: waitForDialogReady_characterised outcome_unregistered)
  from find_append_Some[OF f] f
  show "waitForDialogReady dO init (evs @ later) = waitForDialogReady dO init evs"
    by (simp add: waitForDialogReady_characterised)
qed

theorem C2_ready_handshake_witness:
  "waitForDialogReady ''https://d.test'' (InitIframe)
       [Message (msg_of ''https://evil.test'' ''PASSKEY_READY''),
        Message (msg_of ''https://d.test'' ''PASSKEY_READY''),
        Message (msg_of ''https://d.test'' ''PASSKEY_CLOSE''), NativeClose]
     = settled_ready ''https://d.test'' InitIframe
   \<and> hs_posted (waitForDialogReady ''https://d.test'' InitIframe
         (take 1 [Message (msg_of ''https://evil.test'' ''PASSKEY_READY''),
                  Message (msg_of ''https://d.test'' ''PASSKEY_READY'')])) = []
   \<and> waitForDialogReady ''https://d.test'' InitIframe
       [Message (msg_of ''https://d.test'' ''PASSKEY_CLOSE''),
        Message (msg_of ''https://d.test'' ''PASSKEY_READY'')]
     = settled_closed 1
   \<and> waitForDialogReady ''https://d.test'' InitIframe
       [NativeClose, Message (msg_of ''https://d.test'' ''PASSKEY_READY'')]
     = settled_closed 0"
proof -
  let ?dO = "''https://d.test''"
  let ?bad = "Message (msg_of ''https://evil.test'' ''PASSKEY_READY'')"
  let ?ready = "Message (msg_of ''https://d.test'' ''PASSKEY_READY'')"
  let ?close = "Message (msg_of ''https://d.test'' ''PASSKEY_CLOSE'')"
  have f1: "find (decisive ?dO) [?bad, ?ready, ?close, NativeClose] = Some ?ready"
    by (simp add: decisive_def msg_of_def no_data_def)
  have r1: "is_ready_signal ?dO ?ready" by (simp add: msg_of_def no_data_def)
  have f2: "find (decisive ?dO) [?close, ?ready] = Some ?close \<and> is_close_signal ?dO ?close"
    by (simp add: decisive_def msg_of_def no_data_def)
  have f3: "find (decisive ?dO) [NativeClose, ?ready] = Some NativeClose"
    by (simp add: decisive_def)
  have e1: "waitForDialogReady ?dO InitIframe [?bad, ?ready, ?close, NativeClose]
              = settled_ready ?dO InitIframe"
    by (simp add: waitForDialogReady_def waitForDialogReady_start_def ready_handleMessage_def
        ready_handleClose_def teardown_def resolve_def msg_of_def no_data_def Let_def
        settled_ready_def)
  have e2: "waitForDialogReady ?dO InitIframe [?close, ?ready] = settled_closed 1"
    by (simp add: waitForDialogReady_def waitForDialogReady_start_def ready_handleMessage_def
        ready_handleClose_def teardown_def resolve_def msg_of_def no_data_def Let_def
        settled_closed_def)
  have e3: "waitForDialogReady ?dO InitIframe [NativeClose, ?ready] = settled_closed 0"
    by (simp add: waitForDialogReady_def waitForDialogReady_start_def ready_handleMessage_def
        ready_handleClose_def teardown_def resolve_def msg_of_def no_data_def Let_def
        settled_closed_def)
  note a = C2_ready_handshake[of ?dO InitIframe "[?bad, ?ready, ?close, NativeClose]" 1 ?ready "[]"]
  note b = C2_ready_handshake[of ?dO InitIframe "[?close, ?ready]" 0 ?close "[]"]
  note c = C2_ready_handshake[of ?dO InitIframe "[NativeClose, ?ready]" 0 NativeClose "[]"]
  from a f1 r1 have "hs_posted (waitForDialogReady ?dO InitIframe [?bad, ?ready, ?close, NativeClose])
      = [(PASSKEY_INIT InitIframe, ?dO)]"
    by (simp del: find.simps)
  moreover from b f2 have "hs_cleanups (waitForDialogReady ?dO InitIframe [?close, ?ready]) = 1"
    by (simp del: find.simps)
  moreover from c f3 have "hs_cleanups (waitForDialogReady ?dO InitIframe [NativeClose, ?ready]) = 0"
    by (simp del: find.simps)
  moreover have "hs_posted (waitForDialogReady ?dO InitIframe (take 1 [?bad, ?ready])) = []"
    by (simp add: waitForDialogReady_def waitForDialogReady_start_def ready_handleMessage_def
        msg_of_def)
  ultimately show ?thesis using e1 e2 e3 by simp
qed

section \<open>The wallet provider\<close>

lemma alice_record_nonempty: "alice_record \<noteq> []"
  by (simp add: alice_record_def json_object_def quote_json_def)

text \<open>
  C4, at the request of the scenario: the pipeline's result carries the transaction
  hash \<open>0xabc\<close> and the intent id \<open>intent-1\<close>, and the request returns the intent id, where
  the provider's tests and the wallet client's \<^verbatim>\<open>sendCalls\<close> expect the hash.
\<close>

theorem C4_returns_intent_id_counterexample:
  "rr_result (request_wallet_sendCalls (provider_env_example succeeding_client)
      (provider_options_example None) 8453
      \<lparr>ps_storage = [''1auth-user'' \<mapsto> alice_record], ps_emitted = []\<rparr>
      sendCalls_params)
   = Returns ''intent-1''
   \<and> snd (succeeding_client [''1auth-user'' \<mapsto> alice_record] passed_example)
     = Returns \<lparr>r_success = True, r_intentId = ''intent-1'', r_status = ''completed'',
                  r_transactionHash = Some ''0xabc'', r_operationId = None, r_error = None\<rparr>"
  by (simp add: request_wallet_sendCalls_def sendCalls_params_def ensureUser_def getStoredUser_def
      storageKey_def DEFAULT_STORAGE_KEY_def getItem_def provider_env_example_def
      provider_options_example_def alice_json_def normalizeCall_def show_int_def digit_char_def
      provider_sendIntent_def resolveIntentPayload_def payload_options_def succeeding_client_def
      alice_record_nonempty Let_def)

text \<open>
  C4, what the provider does: for a \<open>wallet_sendCalls\<close> request with the single call
  \<open>{to: "0x1111...1111", value: 2}\<close> and chain override 10, a stored user \<open>alice\<close> and no
  custom signer, the provider calls the pipeline once, with the normalized call
  \<open>{to: "0x1111...1111", data: "0x", value: "2"}\<close>, \<open>targetChain\<close> 10, username \<open>alice\<close>,
  \<open>closeOn\<close> completed and \<open>waitForHash\<close> true, and no signed intent, so that the prepare
  body is the direct one; when the pipeline's result is a success, the request returns
  the intent id of that result.
\<close>

theorem C4_wallet_sendCalls:
  assumes parse: "pe_JSON_parse env raw = Some alice_json"
    and stored: "getItem (storageKey options) (ps_storage s) = Some raw" "raw \<noteq> []"
    and nosigner: "pe_signIntent env = None"
    and dflt: "po_waitForHash options = None" "po_hashTimeoutMs options = None"
              "po_hashIntervalMs options = None"
  shows "rr_passed (request_wallet_sendCalls env options 8453 s sendCalls_params) = [passed_example]
    \<and> sendIntent_requestBody config passed_example
        = DirectBody \<lparr>db_username = Some ''alice'', db_targetChain = Some 10,
                      db_calls = Some [call_example], db_tokenRequests = None,
                      db_sourceAssets = None, db_sourceChainId = None,
                      db_clientId = (if truthy (clientId config) then clientId config else None)\<rparr>
    \<and> (\<forall>st' result. pe_sendIntent env (ps_storage s) passed_example = (st', Returns result)
          \<and> r_success result \<longrightarrow>
          rr_result (request_wallet_sendCalls env options 8453 s sendCalls_params)
            = Returns (r_intentId result))"
proof -
  have user: "getStoredUser (pe_JSON_parse env) options (ps_storage s) = Some alice"
    using parse stored by (simp add: getStoredUser_def alice_json_def alice_def)
  have eu: "ensureUser env options s = (s, Returns alice)"
    by (simp add: ensureUser_def user)
  have run: "request_wallet_sendCalls env options 8453 s sendCalls_params
      = provider_sendIntent env options s
          \<lparr>sn_username = ''alice'', sn_accountAddress = ''0x1111111111111111111111111111111111111111'',
           sn_targetChain = Some 10, sn_calls = [call_example]\<rparr>"
    by (simp add: request_wallet_sendCalls_def sendCalls_params_def eu alice_def
        normalizeCall_def show_int_def digit_char_def call_example_def)
  have pay: "resolveIntentPayload env
          \<lparr>sn_username = ''alice'', sn_accountAddress = ''0x1111111111111111111111111111111111111111'',
           sn_targetChain = Some 10, sn_calls = [call_example]\<rparr>
       = Inr (payload_options\<lparr>o_username := Some ''alice'', o_targetChain := Some 10,
                                o_calls := Some [call_example]\<rparr>)"
    by (simp add: resolveIntentPayload_def nosigner)
  have passed: "payload_options\<lparr>o_username := Some ''alice'', o_targetChain := Some 10,
                                o_calls := Some [call_example], o_closeOn := Some Completed,
                                o_waitForHash := Some True, o_hashTimeoutMs := None,
                                o_hashIntervalMs := None\<rparr> = passed_example"
    by (simp add: payload_options_def passed_example_def)
  have 1: "rr_passed (request_wallet_sendCalls env options 8453 s sendCalls_params) = [passed_example]"
    unfolding run
    by (simp add: provider_sendIntent_def pay dflt passed Let_def split: prod.splits)
  have 2: "sendIntent_requestBody config passed_example
        = DirectBody \<lparr>db_username = Some ''alice'', db_targetChain = Some 10,
                      db_calls = Some [call_example], db_tokenRequests = None,
                      db_sourceAssets = None, db_sourceChainId = None,
                      db_clientId = (if truthy (clientId config) then clientId config else None)\<rparr>"
    by (simp add: sendIntent_requestBody_def passed_example_def serializedTokenRequests_def)
  have 3: "\<forall>st' result. pe_sendIntent env (ps_storage s) passed_example = (st', Returns result)
          \<and> r_success result \<longrightarrow>
          rr_result (request_wallet_sendCalls env options 8453 s sendCalls_params)
            = Returns (r_intentId result)"
    unfolding run
    by (simp add: provider_sendIntent_def pay dflt passed Let_def)
  from 1 2 3 show ?thesis by simp
qed

theorem C4_wallet_sendCalls_witness:
  "pe_JSON_parse (provider_env_example succeeding_client) alice_record = Some alice_json
   \<and> getItem (storageKey (provider_options_example None)) [''1auth-user'' \<mapsto> alice_record]
       = Some alice_record
   \<and> rr_passed (request_wallet_sendCalls (provider_env_example succeeding_client)
         (provider_options_example None) 8453
         \<lparr>ps_storage = [''1auth-user'' \<mapsto> alice_record], ps_emitted = []\<rparr>
         sendCalls_params) = [passed_example]
   \<and> rr_result (request_wallet_sendCalls (provider_env_example succeeding_client)
         (provider_options_example None) 8453
         \<lparr>ps_storage = [''1auth-user'' \<mapsto> alice_record], ps_emitted = []\<rparr>
         sendCalls_params) = Returns ''intent-1''"
proof -
  let ?env = "provider_env_example succeeding_client"
  let ?s = "\<lparr>ps_storage = [''1auth-user'' \<mapsto> alice_record], ps_emitted = []\<rparr>"
  have 1: "pe_JSON_parse ?env alice_record = Some alice_json"
    by (simp add: provider_env_example_def)
  have 2: "getItem (storageKey (provider_options_example None)) (ps_storage ?s) = Some alice_record"
    by (simp add: storageKey_def DEFAULT_STORAGE_KEY_def getItem_def provider_options_example_def)
  have 4: "pe_signIntent ?env = None" by (simp add: provider_env_example_def)
  have 5: "po_waitForHash (provider_options_example None) = None"
    "po_hashTimeoutMs (provider_options_example None) = None"
    "po_hashIntervalMs (provider_options_example None) = None"
    by (simp_all add: provider_options_example_def)
  have 6: "pe_sendIntent ?env (ps_storage ?s) passed_example
      = ([''1auth-user'' \<mapsto> alice_record],
         Returns \<lparr>r_success = True, r_intentId = ''intent-1'', r_status = ''completed'',
                  r_transactionHash = Some ''0xabc'', r_operationId = None, r_error = None\<rparr>)"
    by (simp add: provider_env_example_def succeeding_client_def)
  note t = C4_wallet_sendCalls[OF 1 2 alice_record_nonempty 4 5, of client_config_example]
  from t[THEN conjunct2, THEN conjunct2, rule_format, OF conjI[OF 6]]
  have "rr_result (request_wallet_sendCalls ?env (provider_options_example None) 8453 ?s
          sendCalls_params) = Returns ''intent-1''"
    by simp
  with t 1 2 show ?thesis by simp
qed

text \<open>
  C7: what \<^verbatim>\<open>sendIntent\<close> does on a prepare response that is not OK, for every body of
  that response. When the error message can be read and searched, the failed result
  has code \<open>USER_NOT_FOUND\<close> exactly when the message includes "User not found" and
  \<open>PREPARE_FAILED\<close> otherwise, and in the latter case the storage is unchanged; for a
  body whose \<^verbatim>\<open>error\<close> is a non-empty string this is the substring test on that string.
  When reading or searching the message throws (a body that is \<^verbatim>\<open>null\<close>, an \<^verbatim>\<open>error\<close> that
  is neither a string nor an array), the code is \<open>NETWORK_ERROR\<close> and the storage is
  unchanged. Where a key is removed it is the fixed key \<open>1auth-user\<close>: the entry under any
  other key stays, so a Stored User that the provider keeps under a configured storage
  key survives. The instance that follows the theorem is such a run, with a body
  \<^verbatim>\<open>null\<close> and an array error besides.
\<close>

theorem C7_user_not_found_fixed_key:
  assumes "sendIntent_validate options = None"
    and "e_prepare env (sendIntent_requestBody config options) = PrepareNotOk errorData"
  shows "(error_or errorData ''Failed to prepare intent'' = Inr errorMessage
            \<and> js_includes errorMessage ''User not found'' = Inr found \<longrightarrow>
          run_result (sendIntent U config env st options)
            = Returns (failed_with (if found then ''USER_NOT_FOUND'' else ''PREPARE_FAILED'')
                         errorMessage)
          \<and> run_storage (sendIntent U config env st options)
            = (if found then removeItem ''1auth-user'' st else st))
    \<and> (error_or errorData ''Failed to prepare intent'' = Inl thrown
          \<or> (error_or errorData ''Failed to prepare intent'' = Inr errorMessage
              \<and> js_includes errorMessage ''User not found'' = Inl thrown) \<longrightarrow>
          run_result (sendIntent U config env st options)
            = Returns (failed_result ''NETWORK_ERROR'' (e_typeError env thrown))
          \<and> run_storage (sendIntent U config env st options) = st)
    \<and> (get_prop errorData ''error'' = JStr m \<and> m \<noteq> [] \<longrightarrow>
          run_result (sendIntent U config env st options)
            = Returns (failed_result
                (if str_includes m ''User not found'' then ''USER_NOT_FOUND'' else ''PREPARE_FAILED'')
                m)
          \<and> run_storage (sendIntent U config env st options)
            = (if str_includes m ''User not found'' then removeItem ''1auth-user'' st else st))
    \<and> (key \<noteq> ''1auth-user'' \<longrightarrow>
          getItem key (run_storage (sendIntent U config env st options)) = getItem key st)"
proof -
  have run: "sendIntent U config env st options = sendIntent_prepare_failed env st errorData"
    using assms by (simp add: sendIntent_def)
  have a: "error_or errorData ''Failed to prepare intent'' = Inr errorMessage
            \<and> js_includes errorMessage ''User not found'' = Inr found \<longrightarrow>
          run_result (sendIntent U config env st options)
            = Returns (failed_with (if found then ''USER_NOT_FOUND'' else ''PREPARE_FAILED'')
                         errorMessage)
          \<and> run_storage (sendIntent U config env st options)
            = (if found then removeItem ''1auth-user'' st else st)"
    unfolding run by (simp add: sendIntent_prepare_failed_def)
  have b: "error_or errorData ''Failed to prepare intent'' = Inl thrown
          \<or> (error_or errorData ''Failed to prepare intent'' = Inr errorMessage
              \<and> js_includes errorMessage ''User not found'' = Inl thrown) \<longrightarrow>
          run_result (sendIntent U config env st options)
            = Returns (failed_result ''NETWORK_ERROR'' (e_typeError env thrown))
          \<and> run_storage (sendIntent U config env st options) = st"
    unfolding run by (auto simp: sendIntent_prepare_failed_def)
  have c: "get_prop errorData ''error'' = JStr m \<and> m \<noteq> [] \<longrightarrow>
          run_result (sendIntent U config env st options)
            = Returns (failed_result
                (if str_includes m ''User not found'' then ''USER_NOT_FOUND'' else ''PREPARE_FAILED'')
                m)
          \<and> run_storage (sendIntent U config env st options)
            = (if str_includes m ''User not found'' then removeItem ''1auth-user'' st else st)"
  proof
    assume g: "get_prop errorData ''error'' = JStr m \<and> m \<noteq> []"
    then have "errorData \<noteq> JNull \<and> errorData \<noteq> JUndefined" by auto
    with g have "error_or errorData ''Failed to prepare intent'' = Inr (JStr m)"
      by (simp add: error_or_def)
    then show "run_result (sendIntent U config env st options)
            = Returns (failed_result
                (if str_includes m ''User not found'' then ''USER_NOT_FOUND'' else ''PREPARE_FAILED'')
                m)
          \<and> run_storage (sendIntent U config env st options)
            = (if str_includes m ''User not found'' then removeItem ''1auth-user'' st else st)"
      unfolding run by (simp add: sendIntent_prepare_failed_def failed_with_def failed_result_def)
  qed
  have d: "key \<noteq> ''1auth-user'' \<longrightarrow>
          getItem key (run_storage (sendIntent U config env st options)) = getItem key st"
    unfolding run
    by (simp add: sendIntent_prepare_failed_def removeItem_def getItem_def split: sum.splits)
  from a b c d show ?thesis by blast
qed

theorem C7_user_not_found_fixed_key_witness:
  "sendIntent_validate passed_example = None
   \<and> run_result (sendIntent URL_origin_example client_config_example
        (prepare_not_ok_env (JObj [(''error'', JStr ''User not found'')]))
        [''my-app-user'' \<mapsto> alice_record] passed_example)
      = Returns (failed_result ''USER_NOT_FOUND'' ''User not found'')
   \<and> getStoredUser (\<lambda>raw. if raw = alice_record then Some alice_json else None)
        (provider_options_example (Some ''my-app-user''))
        (run_storage (sendIntent URL_origin_example client_config_example
           (prepare_not_ok_env (JObj [(''error'', JStr ''User not found'')]))
           [''my-app-user'' \<mapsto> alice_record] passed_example))
      = Some alice
   \<and> rr_result (request_wallet_sendCalls
        (provider_env_example
           (client_example (prepare_not_ok_env (JObj [(''error'', JStr ''User not found'')]))))
        (provider_options_example (Some ''my-app-user'')) 8453
        \<lparr>ps_storage = [''my-app-user'' \<mapsto> alice_record], ps_emitted = []\<rparr>
        sendCalls_params)
      = Throws ''User not found''
   \<and> getStoredUser (\<lambda>raw. if raw = alice_record then Some alice_json else None)
        (provider_options_example (Some ''my-app-user''))
        (ps_storage (rr_state (request_wallet_sendCalls
           (provider_env_example
              (client_example (prepare_not_ok_env (JObj [(''error'', JStr ''User not found'')]))))
           (provider_options_example (Some ''my-app-user'')) 8453
           \<lparr>ps_storage = [''my-app-user'' \<mapsto> alice_record], ps_emitted = []\<rparr>
           sendCalls_params)))
      = Some alice
   \<and> run_result (sendIntent URL_origin_example client_config_example (prepare_not_ok_env JNull)
        [''1auth-user'' \<mapsto> alice_record] passed_example)
      = Returns (failed_result ''NETWORK_ERROR'' ''Cannot read properties of null'')
   \<and> run_storage (sendIntent URL_origin_example client_config_example (prepare_not_ok_env JNull)
        [''1auth-user'' \<mapsto> alice_record] passed_example)
      = [''1auth-user'' \<mapsto> alice_record]
   \<and> run_result (sendIntent URL_origin_example client_config_example
        (prepare_not_ok_env (JObj [(''error'', JArr [JStr ''User not found''])]))
        [''1auth-user'' \<mapsto> alice_record] passed_example)
      = Returns (failed_with ''USER_NOT_FOUND'' (JArr [JStr ''User not found'']))
   \<and> run_storage (sendIntent URL_origin_example client_config_example
        (prepare_not_ok_env (JObj [(''error'', JArr [JStr ''User not found''])]))
        [''1auth-user'' \<mapsto> alice_record] passed_example)
      = Map.empty"
proof -
  let ?st = "[''my-app-user'' \<mapsto> alice_record]"
  let ?st1 = "[''1auth-user'' \<mapsto> alice_record]"
  let ?body = "JObj [(''error'', JStr ''User not found'')]"
  let ?list = "JObj [(''error'', JArr [JStr ''User not found''])]"
  let ?env = "prepare_not_ok_env ?body"
  have v: "sendIntent_validate passed_example = None"
    by (simp add: sendIntent_validate_def passed_example_def resolved_username_def
        resolved_targetChain_def resolved_calls_def Let_def)
  have p: "\<And>b. e_prepare (prepare_not_ok_env b)
              (sendIntent_requestBody client_config_example passed_example) = PrepareNotOk b"
    by (simp add: prepare_not_ok_env_def)
  have te: "\<And>b. e_typeError (prepare_not_ok_env b) PropertyOfNullish = ''Cannot read properties of null''"
    by (simp add: prepare_not_ok_env_def)
  note t = C7_user_not_found_fixed_key[OF v p, of ?body "JStr ''User not found''" True
             URL_origin_example ?st PropertyOfNullish "''User not found''" "''my-app-user''"]
  note n = C7_user_not_found_fixed_key[OF v p, of JNull "JStr []" True
             URL_origin_example ?st1 PropertyOfNullish "[]" "''1auth-user''"]
  note l = C7_user_not_found_fixed_key[OF v p, of ?list "JArr [JStr ''User not found'']" True
             URL_origin_example ?st1 PropertyOfNullish "[]" "''1auth-user''"]
  have inc: "str_includes ''User not found'' ''User not found''" by simp
  from t[THEN conjunct2, THEN conjunct2, THEN conjunct1] inc
  have r: "run_result (sendIntent URL_origin_example client_config_example ?env ?st passed_example)
      = Returns (failed_result ''USER_NOT_FOUND'' ''User not found'')"
    by simp
  from t[THEN conjunct2, THEN conjunct2, THEN conjunct2]
  have g: "getItem ''my-app-user'' (run_storage (sendIntent URL_origin_example
        client_config_example ?env ?st passed_example)) = Some alice_record"
    by (simp add: getItem_def)
  have su: "getStoredUser (\<lambda>raw. if raw = alice_record then Some alice_json else None)
        (provider_options_example (Some ''my-app-user''))
        (run_storage (sendIntent URL_origin_example client_config_example ?env ?st passed_example))
      = Some alice"
    using g by (simp add: getStoredUser_def storageKey_def provider_options_example_def
        alice_json_def alice_def alice_record_nonempty)
  have run: "request_wallet_sendCalls (provider_env_example (client_example ?env))
        (provider_options_example (Some ''my-app-user'')) 8453
        \<lparr>ps_storage = ?st, ps_emitted = []\<rparr> sendCalls_params
      = \<lparr>rr_state = \<lparr>ps_storage = run_storage (sendIntent URL_origin_example
                          client_config_example ?env ?st passed_example),
                       ps_emitted = []\<rparr>,
         rr_passed = [passed_example],
         rr_result = Throws ''User not found''\<rparr>"
    using r
    by (simp add: request_wallet_sendCalls_def sendCalls_params_def ensureUser_def getStoredUser_def
      storageKey_def getItem_def provider_env_example_def client_example_def
      provider_options_example_def alice_json_def normalizeCall_def show_int_def digit_char_def
      provider_sendIntent_def resolveIntentPayload_def payload_options_def Let_def
      passed_example_def call_example_def failed_result_def error_message_or_def
      alice_record_nonempty)
  from n[THEN conjunct2, THEN conjunct1]
  have nr: "run_result (sendIntent URL_origin_example client_config_example (prepare_not_ok_env JNull)
        ?st1 passed_example)
      = Returns (failed_result ''NETWORK_ERROR'' ''Cannot read properties of null'')
    \<and> run_storage (sendIntent URL_origin_example client_config_example (prepare_not_ok_env JNull)
        ?st1 passed_example) = ?st1"
    by (simp add: error_or_def te)
  from l[THEN conjunct1]
  have lr: "run_result (sendIntent URL_origin_example client_config_example (prepare_not_ok_env ?list)
        ?st1 passed_example)
      = Returns (failed_with ''USER_NOT_FOUND'' (JArr [JStr ''User not found'']))
    \<and> run_storage (sendIntent URL_origin_example client_config_example (prepare_not_ok_env ?list)
        ?st1 passed_example) = Map.empty"
    by (simp add: error_or_def removeItem_def)
  from v r su run nr lr show ?thesis by simp
qed

end
